theory Spec2Isabelle
  imports Complex_Main
begin

section \<open>The Axon request pipeline (bittensor/\_axon/axon\_impl.py)\<close>

text \<open>
  A shallow embedding of \<^verbatim>\<open>Axon._forward\<close>, \<^verbatim>\<open>Axon._backward\<close> and the two RPC
  wrappers \<^verbatim>\<open>Forward\<close> and \<^verbatim>\<open>Backward\<close>. The local variables of a call are a record that
  is passed from stage to stage; an early \<^verbatim>\<open>return\<close> and an escaping exception are
  values of the step type. Every call the pipeline makes to a collaborator (synapse codec,
  priority function, thread pool, compute callback, telemetry) is appended to a log kept in
  the state, so that "this stage was never invoked" is a statement about that log.

  Collaborators that are not part of this file of the repository are fields of the record
  that stands for \<^verbatim>\<open>self\<close>. A collaborator is fallible (returns \<open>exn + 'a\<close>) where the
  source calls it inside a \<^verbatim>\<open>try\<close>, and for the deserialization of a synapse wire
  descriptor, which the source calls outside any \<^verbatim>\<open>try\<close> (lines 202-204, 431-433): its
  exception leaves the pipeline. \<^verbatim>\<open>synapse.empty()\<close>, \<^verbatim>\<open>serialize_to_wire_proto\<close>, the clock
  and the telemetry sinks are total. Exceptions are the subclasses of \<^verbatim>\<open>Exception\<close>.
\<close>

subsection \<open>Data\<close>

text \<open>\<^verbatim>\<open>bittensor.proto.ReturnCode\<close>: the members this file names, and the rest of the enumeration.\<close>

datatype return_code =
    Success
  | EmptyRequest
  | InvalidRequest
  | RequestShapeException
  | RequestDeserializationException
  | ResponseShapeException
  | ResponseSerializationException
  | EmptyResponse
  | NotImplemented
  | UnknownException
  | Timeout
  | OtherCode nat

text \<open>\<^verbatim>\<open>bittensor.proto.RequestType\<close>.\<close>

datatype request_type = FORWARD | BACKWARD

text \<open>
  Exceptions, by the class that decides which \<^verbatim>\<open>except\<close> clause takes them; the string is
  \<^verbatim>\<open>str(e)\<close>. \<open>UnboundLocalError\<close> carries the name of the variable; its message quotes the
  name, in the wording of Python up to 3.10.
\<close>

datatype exn =
    TimeoutError string
  | ValueError string
  | IndexError string
  | UnboundLocalError string
  | Exception string

fun str :: "exn \<Rightarrow> string" where
  "str (TimeoutError m) = m"
| "str (ValueError m) = m"
| "str (IndexError m) = m"
| "str (UnboundLocalError v) =
     ''local variable '' @ [CHR 0x27] @ v @ [CHR 0x27] @ '' referenced before assignment''"
| "str (Exception m) = m"

text \<open>A synapse wire descriptor: its type tag and configuration, and the mutable code and message slots.\<close>

record 'w wire_synapse =
  synapse_args :: 'w
  return_code :: return_code
  message :: string

text \<open>The fields of \<^verbatim>\<open>bittensor.proto.TensorMessage\<close> that the pipeline reads from a request.\<close>

record ('w, 'p) request =
  hotkey :: string
  requires_grad :: bool
  tensors :: "'p list"
  synapses :: "'w wire_synapse list"

text \<open>What a compute callback returns: response tensors, codes and messages.\<close>

type_synonym 'x callback_result = "'x option list \<times> return_code list \<times> string list"

text \<open>
  A future of the priority thread pool, seen through \<^verbatim>\<open>future.result(timeout)\<close>: it raises
  (a timeout, or the exception of the task) or yields the task's result.
\<close>

type_synonym 'x future = "int option \<Rightarrow> exn + 'x callback_result"

text \<open>
  \<^verbatim>\<open>self\<close>, with the collaborators the pipeline calls. \<open>'w\<close> is the configuration of a wire
  descriptor, \<open>'s\<close> a synapse object, \<open>'p\<close> a serialized tensor, \<open>'x\<close> a tensor. A task
  submitted to the pool is the callback applied to its arguments.
\<close>

record ('w, 's, 'p, 'x) axon =
  wallet_hotkey :: string
  version_as_int :: int
  forward_callback :: "'x option list \<Rightarrow> 's list \<Rightarrow> string \<Rightarrow> exn + 'x callback_result"
  backward_callback :: "'x option list \<Rightarrow> 'x option list \<Rightarrow> 's list \<Rightarrow> exn + 'x callback_result"
  forward_timeout :: "int option"
  priority :: "(string \<Rightarrow> 'x option list \<Rightarrow> request_type \<Rightarrow> exn + real) option"
  priority_threadpool_submit :: "(unit \<Rightarrow> exn + 'x callback_result) \<Rightarrow> real \<Rightarrow> exn + 'x future"
  prometheus :: bool
  synapse_deserialize :: "'w wire_synapse \<Rightarrow> exn + 's"
  synapse_empty :: "'s \<Rightarrow> 'p"
  deserialize_forward_request_tensor :: "'s \<Rightarrow> 'p \<Rightarrow> exn + 'x"
  deserialize_backward_request_gradient :: "'s \<Rightarrow> 'x \<Rightarrow> 'p \<Rightarrow> exn + 'x"
  serialize_forward_response_tensor :: "'s \<Rightarrow> 'x option \<Rightarrow> 'x option \<Rightarrow> exn + 'p"
  serialize_to_wire_proto :: "'s \<Rightarrow> return_code \<Rightarrow> string \<Rightarrow> 'w wire_synapse"
  clock_time :: "nat \<Rightarrow> real"

text \<open>The calls to collaborators, in the order the pipeline makes them; the number is the synapse index.\<close>

datatype event =
    SynapseEmpty nat
  | Finalize
  | DeserializeForwardRequestTensor nat
  | DeserializeBackwardRequestGradient nat
  | Priority
  | Submit
  | FutureResult
  | FutureCancel
  | ForwardCallback
  | BackwardCallback
  | SerializeForwardResponseTensor nat
  | SerializeToWireProto nat

text \<open>
  The local variables of \<^verbatim>\<open>_forward\<close> and \<^verbatim>\<open>_backward\<close>, with \<^verbatim>\<open>request.synapses\<close> (which
  \<^verbatim>\<open>finalize_codes_stats_and_logs\<close> mutates), whether \<^verbatim>\<open>future\<close> has been assigned, the number
  of clock readings taken so far and the log of calls.
\<close>

record ('w, 'p, 'x) call_state =
  synapse_messages :: "string list"
  synapse_codes :: "return_code list"
  synapse_inputs :: "'x option list"
  synapse_responses :: "'p list"
  synapse_is_response :: "bool list"
  synapse_call_times :: "real list"
  start_time :: real
  deserialized_forward_tensors :: "'x option list"
  deserialized_forward_gradients :: "'x option list"
  forward_response_tensors :: "'x option list"
  response_synapses :: "'w wire_synapse list"
  request_synapses :: "'w wire_synapse list"
  future_bound :: bool
  clock_reads :: nat
  trace :: "event list"

text \<open>The triple a pipeline returns, with the state of the locals at the \<^verbatim>\<open>return\<close>.\<close>

record ('w, 'p, 'x) returned =
  ret_tensors :: "'p list"
  ret_code :: return_code
  ret_synapses :: "'w wire_synapse list"
  ret_state :: "('w, 'p, 'x) call_state"

text \<open>A stage falls through to the next one, returns from the function, or lets an exception out.\<close>

datatype ('w, 'p, 'x) step =
    Continue "('w, 'p, 'x) call_state"
  | Return "('w, 'p, 'x) returned"
  | Raise exn

subsection \<open>Python helpers\<close>

text \<open>\<^verbatim>\<open>xs[i]\<close> raises IndexError out of range.\<close>

definition py_index :: "'a list \<Rightarrow> nat \<Rightarrow> exn + 'a" where
  "py_index xs i = (if i < length xs then Inr (xs ! i) else Inl (IndexError ''list index out of range''))"

text \<open>\<^verbatim>\<open>'{}'.format(n)\<close> for a length.\<close>

definition digit :: "nat \<Rightarrow> char" where
  "digit d = (''0123456789'' ! d)"

fun str_nat :: "nat \<Rightarrow> string" where
  "str_nat n = (if n < 10 then [digit n] else str_nat (n div 10) @ [digit (n mod 10)])"

declare str_nat.simps [simp del]

definition log_event :: "event \<Rightarrow> ('w, 'p, 'x) call_state \<Rightarrow> ('w, 'p, 'x) call_state" where
  "log_event e st = st\<lparr>trace := trace st @ [e]\<rparr>"

text \<open>\<^verbatim>\<open>clock.time()\<close>: the value read, and the state after the reading.\<close>

definition clock_now :: "('w, 's, 'p, 'x) axon \<Rightarrow> ('w, 'p, 'x) call_state \<Rightarrow> real" where
  "clock_now self st = clock_time self (clock_reads st)"

definition clock_tick :: "('w, 'p, 'x) call_state \<Rightarrow> ('w, 'p, 'x) call_state" where
  "clock_tick st = st\<lparr>clock_reads := Suc (clock_reads st)\<rparr>"

subsection \<open>What \_forward and \_backward share\<close>

text \<open>Lines 202-204 and 431-433: the loop stops at the first descriptor that does not deserialize.\<close>

fun deserialize_synapses :: "('w, 's, 'p, 'x) axon \<Rightarrow> 'w wire_synapse list \<Rightarrow> exn + 's list" where
  "deserialize_synapses self [] = Inr []"
| "deserialize_synapses self (w # ws) =
     (case synapse_deserialize self w of
        Inl e \<Rightarrow> Inl e
      | Inr s \<Rightarrow> (case deserialize_synapses self ws of Inl e \<Rightarrow> Inl e | Inr ss \<Rightarrow> Inr (s # ss)))"

text \<open>\<^verbatim>\<open>check_if_should_return\<close> (lines 223-227, 451-455).\<close>

fun all_non_success :: "return_code list \<Rightarrow> bool" where
  "all_non_success [] = True"
| "all_non_success (code # codes) = (if code = Success then False else all_non_success codes)"

definition check_if_should_return :: "('w, 'p, 'x) call_state \<Rightarrow> bool" where
  "check_if_should_return st = all_non_success (synapse_codes st)"

text \<open>
  \<^verbatim>\<open>finalize_codes_stats_and_logs\<close> (lines 233-256, 460-483): with prometheus on it reads the
  clock once; for every index it writes the code and the message into the request's
  descriptor. The counters and the log records go to the telemetry sink. The attribute
  \<^verbatim>\<open>self.prometheus\<close> is read here and assigned nowhere in this file of the repository:
  it is a field of the record for \<^verbatim>\<open>self\<close>. The indices are those of the synapses, in range
  of the outcome lists and of the request's descriptors, which are as long.
\<close>

definition write_back ::
  "return_code list \<Rightarrow> string list \<Rightarrow> nat \<Rightarrow> 'w wire_synapse list \<Rightarrow> 'w wire_synapse list" where
  "write_back codes msgs index ws =
     ws[index := (ws ! index)\<lparr>return_code := codes ! index, message := msgs ! index\<rparr>]"

definition finalize_codes_stats_and_logs ::
  "('w, 's, 'p, 'x) axon \<Rightarrow> 's list \<Rightarrow> ('w, 'p, 'x) call_state \<Rightarrow> ('w, 'p, 'x) call_state" where
  "finalize_codes_stats_and_logs self syns st =
     (let st1 = (if prometheus self then clock_tick st else st)
      in st1\<lparr>request_synapses :=
               fold (write_back (synapse_codes st) (synapse_messages st)) [0..<length syns] (request_synapses st),
             trace := trace st @ [Finalize]\<rparr>)"

text \<open>
  The block that a failed validation and the two handlers of the compute stage repeat:
  one clock reading, and every outcome overwritten with the same code, time and message.
\<close>

definition fail_all ::
  "('w, 's, 'p, 'x) axon \<Rightarrow> return_code \<Rightarrow> string \<Rightarrow> 's list \<Rightarrow> ('w, 'p, 'x) call_state \<Rightarrow> ('w, 'p, 'x) call_state" where
  "fail_all self code msg syns st =
     (let call_time = clock_now self st - start_time st
      in (clock_tick st)\<lparr>synapse_codes := map (\<lambda>_. code) syns,
                          synapse_call_times := map (\<lambda>_. call_time) syns,
                          synapse_messages := map (\<lambda>_. msg) syns\<rparr>)"

text \<open>\<^verbatim>\<open>finalize_codes_stats_and_logs(); return [], code, request.synapses\<close>.\<close>

definition return_failure ::
  "('w, 's, 'p, 'x) axon \<Rightarrow> 's list \<Rightarrow> return_code \<Rightarrow> ('w, 'p, 'x) call_state \<Rightarrow> ('w, 'p, 'x) step" where
  "return_failure self syns code st =
     (let st1 = finalize_codes_stats_and_logs self syns st
      in Return \<lparr>ret_tensors = [], ret_code = code, ret_synapses = request_synapses st1, ret_state = st1\<rparr>)"

text \<open>
  \<^verbatim>\<open>if check_if_should_return(): finalize_codes_stats_and_logs(); return [], synapse_codes[0], request.synapses\<close>
  (lines 305-307, 398-400, 543-545, 603-605).
\<close>

definition return_if_all_failed ::
  "('w, 's, 'p, 'x) axon \<Rightarrow> 's list \<Rightarrow> ('w, 'p, 'x) call_state \<Rightarrow> ('w, 'p, 'x) step" where
  "return_if_all_failed self syns st =
     (if check_if_should_return st then
        (case py_index (synapse_codes st) 0 of
           Inl e \<Rightarrow> Raise e
         | Inr code \<Rightarrow> return_failure self syns code st)
      else Continue st)"

text \<open>The body of a handler of the decode or the encode loop: one outcome overwritten.\<close>

definition fail_one ::
  "('w, 's, 'p, 'x) axon \<Rightarrow> nat \<Rightarrow> return_code \<Rightarrow> string \<Rightarrow> ('w, 'p, 'x) call_state \<Rightarrow> ('w, 'p, 'x) call_state" where
  "fail_one self index code msg st =
     (clock_tick st)\<lparr>synapse_codes := (synapse_codes st)[index := code],
                      synapse_call_times := (synapse_call_times st)[index := clock_now self st - start_time st],
                      synapse_messages := (synapse_messages st)[index := msg]\<rparr>"

text \<open>
  Lines 405-407 and 610-612: a clock reading for every outcome that is still Success.
\<close>

definition set_return_time ::
  "('w, 's, 'p, 'x) axon \<Rightarrow> nat \<Rightarrow> ('w, 'p, 'x) call_state \<Rightarrow> ('w, 'p, 'x) call_state" where
  "set_return_time self index st =
     (if synapse_codes st ! index = Success then
        (clock_tick st)\<lparr>synapse_call_times := (synapse_call_times st)[index := clock_now self st - start_time st]\<rparr>
      else st)"

text \<open>The stages of a pipeline run in order until one returns or raises.\<close>

fun run :: "(('w, 'p, 'x) call_state \<Rightarrow> ('w, 'p, 'x) step) list \<Rightarrow> ('w, 'p, 'x) call_state \<Rightarrow> ('w, 'p, 'x) step" where
  "run [] st = Continue st"
| "run (stage # stages) st =
     (case stage st of
        Continue st' \<Rightarrow> run stages st'
      | Return r \<Rightarrow> Return r
      | Raise e \<Rightarrow> Raise e)"

text \<open>
  The loop that copies the callback's codes and messages into the outcomes (lines 336-338,
  572-574); a list of the callback that is too short raises IndexError at that index.
\<close>

fun fill_codes ::
  "nat list \<Rightarrow> return_code list \<Rightarrow> string list \<Rightarrow> ('w, 'p, 'x) call_state \<Rightarrow> (exn \<times> ('w, 'p, 'x) call_state) + ('w, 'p, 'x) call_state" where
  "fill_codes [] codes msgs st = Inr st"
| "fill_codes (index # rest) codes msgs st =
     (case py_index codes index of
        Inl e \<Rightarrow> Inl (e, st)
      | Inr c \<Rightarrow>
          (let st1 = st\<lparr>synapse_codes := (synapse_codes st)[index := c]\<rparr>
           in case py_index msgs index of
                Inl e \<Rightarrow> Inl (e, st1)
              | Inr m \<Rightarrow> fill_codes rest codes msgs (st1\<lparr>synapse_messages := (synapse_messages st1)[index := m]\<rparr>)))"

subsection \<open>\_forward (lines 183-410)\<close>

text \<open>Lines 212-218. The start time is the first clock reading; \<^verbatim>\<open>synapse.empty()\<close> is called once per synapse.\<close>

definition init_forward ::
  "('w, 's, 'p, 'x) axon \<Rightarrow> ('w, 'p) request \<Rightarrow> 's list \<Rightarrow> ('w, 'p, 'x) call_state" where
  "init_forward self req syns =
     \<lparr>synapse_messages = map (\<lambda>_. ''Success'') syns,
      synapse_codes = map (\<lambda>_. Success) syns,
      synapse_inputs = map (\<lambda>_. None) syns,
      synapse_responses = map (synapse_empty self) syns,
      synapse_is_response = map (\<lambda>_. False) syns,
      synapse_call_times = map (\<lambda>_. 0) syns,
      start_time = clock_time self 0,
      deserialized_forward_tensors = [],
      deserialized_forward_gradients = [],
      forward_response_tensors = [],
      response_synapses = [],
      request_synapses = synapses req,
      future_bound = False,
      clock_reads = 1,
      trace = map SynapseEmpty [0..<length syns]\<rparr>"

text \<open>Lines 261-284: the empty request, then the request length.\<close>

definition validate_forward ::
  "('w, 's, 'p, 'x) axon \<Rightarrow> ('w, 'p) request \<Rightarrow> 's list \<Rightarrow> ('w, 'p, 'x) call_state \<Rightarrow> ('w, 'p, 'x) step" where
  "validate_forward self req syns st =
     (if length (tensors req) = 0 then
        return_failure self syns EmptyRequest
          (fail_all self EmptyRequest
             (''Forward request contains '' @ str_nat (length (tensors req)) @ '' tensors, expected 1 tensor in the forward call'')
             syns st)
      else if length (tensors req) \<noteq> length syns then
        return_failure self syns RequestShapeException
          (fail_all self RequestShapeException ''Request length doesn't match synape length.'' syns st)
      else Continue st)"

text \<open>The two handlers of the decode loop (lines 295-303, 533-541).\<close>

definition decode_failed ::
  "('w, 's, 'p, 'x) axon \<Rightarrow> nat \<Rightarrow> exn \<Rightarrow> ('w, 'p, 'x) call_state \<Rightarrow> ('w, 'p, 'x) call_state" where
  "decode_failed self index e st =
     (case e of
        ValueError m \<Rightarrow>
          fail_one self index RequestShapeException (''Input shape exception with error:'' @ str e) st
      | _ \<Rightarrow>
          fail_one self index RequestDeserializationException
            (''Input deserialization exception with error:'' @ str e) st)"

text \<open>One round of the decode loop (lines 291-303).\<close>

definition deserialize_forward_input ::
  "('w, 's, 'p, 'x) axon \<Rightarrow> ('w, 'p) request \<Rightarrow> nat \<times> 's \<Rightarrow> ('w, 'p, 'x) call_state \<Rightarrow> ('w, 'p, 'x) call_state" where
  "deserialize_forward_input self req = (\<lambda>(index, synapse) st.
     (case py_index (tensors req) index of
        Inl e \<Rightarrow> decode_failed self index e st
      | Inr t \<Rightarrow>
          (let st1 = log_event (DeserializeForwardRequestTensor index) st
           in case deserialize_forward_request_tensor self synapse t of
                Inl e \<Rightarrow> decode_failed self index e st1
              | Inr x \<Rightarrow>
                  st1\<lparr>deserialized_forward_tensors := (deserialized_forward_tensors st1)[index := Some x]\<rparr>)))"

text \<open>Lines 290-303: the decode loop.\<close>

definition decode_forward_loop ::
  "('w, 's, 'p, 'x) axon \<Rightarrow> ('w, 'p) request \<Rightarrow> 's list \<Rightarrow> ('w, 'p, 'x) call_state \<Rightarrow> ('w, 'p, 'x) call_state" where
  "decode_forward_loop self req syns st =
     fold (deserialize_forward_input self req) (enumerate 0 syns)
       (st\<lparr>deserialized_forward_tensors := map (\<lambda>_. None) syns\<rparr>)"

text \<open>Lines 290-307: the decode loop and the check after it.\<close>

definition decode_forward ::
  "('w, 's, 'p, 'x) axon \<Rightarrow> ('w, 'p) request \<Rightarrow> 's list \<Rightarrow> ('w, 'p, 'x) call_state \<Rightarrow> ('w, 'p, 'x) step" where
  "decode_forward self req syns st = return_if_all_failed self syns (decode_forward_loop self req syns st)"

text \<open>
  The body of the \<^verbatim>\<open>try\<close> of lines 313-338. An exception comes with the state in which
  it was raised: the handler sees whether \<^verbatim>\<open>future\<close> was assigned.
\<close>

definition forward_calls_try ::
  "('w, 's, 'p, 'x) axon \<Rightarrow> ('w, 'p) request \<Rightarrow> 's list \<Rightarrow> ('w, 'p, 'x) call_state
     \<Rightarrow> (exn \<times> ('w, 'p, 'x) call_state) + ('w, 'p, 'x) call_state" where
  "forward_calls_try self req syns st =
     (let st1 = finalize_codes_stats_and_logs self syns st;
          inputs_x = deserialized_forward_tensors st1;
          filled = (\<lambda>(response_tensors, codes, msgs) st'.
             fill_codes [0..<length syns] codes msgs
               (st'\<lparr>forward_response_tensors := response_tensors,
                    synapse_is_response := map (\<lambda>_. True) syns\<rparr>))
      in case priority self of
           Some priority_fn \<Rightarrow>
             (let st2 = log_event Priority st1
              in case priority_fn (hotkey req) inputs_x FORWARD of
                   Inl e \<Rightarrow> Inl (e, st2)
                 | Inr p \<Rightarrow>
                     (let st3 = log_event Submit st2
                      in case priority_threadpool_submit self
                                (\<lambda>_. forward_callback self inputs_x syns (hotkey req)) p of
                           Inl e \<Rightarrow> Inl (e, st3)
                         | Inr future \<Rightarrow>
                             (let st4 = log_event FutureResult (st3\<lparr>future_bound := True\<rparr>)
                              in case future (forward_timeout self) of
                                   Inl e \<Rightarrow> Inl (e, st4)
                                 | Inr res \<Rightarrow> filled res st4)))
         | None \<Rightarrow>
             (let st2 = log_event ForwardCallback st1
              in case forward_callback self inputs_x syns (hotkey req) of
                   Inl e \<Rightarrow> Inl (e, st2)
                 | Inr res \<Rightarrow> filled res st2))"

text \<open>
  The handlers of lines 342-365. \<^verbatim>\<open>future.cancel()\<close> reads the local \<^verbatim>\<open>future\<close>; when the
  timeout was raised before the assignment of line 317 the read raises UnboundLocalError,
  inside the handler, and no other clause of the \<^verbatim>\<open>try\<close> takes it.
\<close>

definition forward_calls_failed ::
  "('w, 's, 'p, 'x) axon \<Rightarrow> 's list \<Rightarrow> exn \<Rightarrow> ('w, 'p, 'x) call_state \<Rightarrow> ('w, 'p, 'x) step" where
  "forward_calls_failed self syns e st =
     (case e of
        TimeoutError m \<Rightarrow>
          (if priority self \<noteq> None \<and> \<not> future_bound st then Raise (UnboundLocalError ''future'')
           else return_failure self syns Timeout
                  (fail_all self Timeout ''Request reached timeout'' syns
                     (if priority self \<noteq> None then log_event FutureCancel st else st)))
      | _ \<Rightarrow>
          return_failure self syns UnknownException (fail_all self UnknownException (str e) syns st))"

definition forward_calls ::
  "('w, 's, 'p, 'x) axon \<Rightarrow> ('w, 'p) request \<Rightarrow> 's list \<Rightarrow> ('w, 'p, 'x) call_state \<Rightarrow> ('w, 'p, 'x) step" where
  "forward_calls self req syns st =
     (case forward_calls_try self req syns st of
        Inr st' \<Rightarrow> Continue st'
      | Inl (e, st') \<Rightarrow> forward_calls_failed self syns e st')"

text \<open>The two handlers of the encode loop (lines 378-392).\<close>

definition encode_failed ::
  "('w, 's, 'p, 'x) axon \<Rightarrow> nat \<Rightarrow> 's \<Rightarrow> exn \<Rightarrow> ('w, 'p, 'x) call_state \<Rightarrow> ('w, 'p, 'x) call_state" where
  "encode_failed self index synapse e st =
     (let st1 =
        (case e of
           ValueError m \<Rightarrow>
             fail_one self index
               (if str e = ''Empty Response'' then EmptyResponse else ResponseShapeException)
               (''Synapse response shape exception with error: '' @ str e) st
         | _ \<Rightarrow>
             fail_one self index ResponseSerializationException
               (''Synapse response serialization exception with error: '' @ str e) st);
          st2 = log_event (SynapseEmpty index) st1
      in st2\<lparr>synapse_responses := (synapse_responses st2)[index := synapse_empty self synapse]\<rparr>)"

text \<open>
  One round of the encode loop (lines 371-394). The index is that of \<^verbatim>\<open>enumerate(synapses)\<close>,
  in range of the outcome lists (they are as long as the synapses, see below).
\<close>

definition serialize_forward_response ::
  "('w, 's, 'p, 'x) axon \<Rightarrow> nat \<times> 's \<Rightarrow> ('w, 'p, 'x) call_state \<Rightarrow> ('w, 'p, 'x) call_state" where
  "serialize_forward_response self = (\<lambda>(index, synapse) st.
     (let st1 =
        (if synapse_codes st ! index = Success then
           (case py_index (deserialized_forward_tensors st) index of
              Inl e \<Rightarrow> encode_failed self index synapse e st
            | Inr x \<Rightarrow>
                (case py_index (forward_response_tensors st) index of
                   Inl e \<Rightarrow> encode_failed self index synapse e st
                 | Inr y \<Rightarrow>
                     (let st' = log_event (SerializeForwardResponseTensor index) st
                      in case serialize_forward_response_tensor self synapse x y of
                           Inl e \<Rightarrow> encode_failed self index synapse e st'
                         | Inr p \<Rightarrow> st'\<lparr>synapse_responses := (synapse_responses st')[index := p]\<rparr>)))
         else
           (let st' = log_event (SynapseEmpty index) st
            in st'\<lparr>synapse_responses := (synapse_responses st')[index := synapse_empty self synapse]\<rparr>));
          st2 = log_event (SerializeToWireProto index) st1
      in st2\<lparr>response_synapses := response_synapses st2 @
                [serialize_to_wire_proto self synapse (synapse_codes st2 ! index) (synapse_messages st2 ! index)]\<rparr>))"

text \<open>Lines 370-394: the encode loop.\<close>

definition encode_forward_loop ::
  "('w, 's, 'p, 'x) axon \<Rightarrow> 's list \<Rightarrow> ('w, 'p, 'x) call_state \<Rightarrow> ('w, 'p, 'x) call_state" where
  "encode_forward_loop self syns st =
     fold (serialize_forward_response self) (enumerate 0 syns) (st\<lparr>response_synapses := []\<rparr>)"

text \<open>Lines 370-400: the encode loop and the check after it.\<close>

definition encode_forward ::
  "('w, 's, 'p, 'x) axon \<Rightarrow> 's list \<Rightarrow> ('w, 'p, 'x) call_state \<Rightarrow> ('w, 'p, 'x) step" where
  "encode_forward self syns st = return_if_all_failed self syns (encode_forward_loop self syns st)"

text \<open>Lines 405-410: the return of a call with at least one Success.\<close>

definition finish_forward ::
  "('w, 's, 'p, 'x) axon \<Rightarrow> 's list \<Rightarrow> ('w, 'p, 'x) call_state \<Rightarrow> ('w, 'p, 'x) returned" where
  "finish_forward self syns st =
     (let st1 = finalize_codes_stats_and_logs self syns (fold (set_return_time self) [0..<length syns] st)
      in \<lparr>ret_tensors = synapse_responses st1, ret_code = Success,
          ret_synapses = response_synapses st1, ret_state = st1\<rparr>)"

text \<open>The stages of \<^verbatim>\<open>_forward\<close> that can end the call early, in order.\<close>

definition forward_stages ::
  "('w, 's, 'p, 'x) axon \<Rightarrow> ('w, 'p) request \<Rightarrow> 's list \<Rightarrow> (('w, 'p, 'x) call_state \<Rightarrow> ('w, 'p, 'x) step) list" where
  "forward_stages self req syns =
     [validate_forward self req syns, decode_forward self req syns,
      forward_calls self req syns, encode_forward self syns]"

text \<open>The result of a pipeline: the stages, then the final return for a call that reached it.\<close>

definition finish ::
  "(('w, 'p, 'x) call_state \<Rightarrow> ('w, 'p, 'x) returned) \<Rightarrow> ('w, 'p, 'x) step \<Rightarrow> exn + ('w, 'p, 'x) returned" where
  "finish final s = (case s of Continue st \<Rightarrow> Inr (final st) | Return r \<Rightarrow> Inr r | Raise e \<Rightarrow> Inl e)"

definition forward_pipeline ::
  "('w, 's, 'p, 'x) axon \<Rightarrow> ('w, 'p) request \<Rightarrow> 's list \<Rightarrow> exn + ('w, 'p, 'x) returned" where
  "forward_pipeline self req syns =
     finish (finish_forward self syns) (run (forward_stages self req syns) (init_forward self req syns))"

text \<open>\<^verbatim>\<open>Axon._forward\<close>.\<close>

definition axon_forward ::
  "('w, 's, 'p, 'x) axon \<Rightarrow> ('w, 'p) request \<Rightarrow> exn + ('w, 'p, 'x) returned" where
  "axon_forward self req =
     (case deserialize_synapses self (synapses req) of
        Inl e \<Rightarrow> Inl e
      | Inr syns \<Rightarrow> forward_pipeline self req syns)"

subsection \<open>\_backward (lines 412-615)\<close>

text \<open>Lines 440-446.\<close>

definition init_backward ::
  "('w, 's, 'p, 'x) axon \<Rightarrow> ('w, 'p) request \<Rightarrow> 's list \<Rightarrow> ('w, 'p, 'x) call_state" where
  "init_backward self req syns =
     \<lparr>synapse_messages = map (\<lambda>_. ''Success'') syns,
      synapse_codes = map (\<lambda>_. Success) syns,
      synapse_inputs = [],
      synapse_responses = [],
      synapse_is_response = map (\<lambda>_. False) syns,
      synapse_call_times = map (\<lambda>_. 0) syns,
      start_time = clock_time self 0,
      deserialized_forward_tensors = map (\<lambda>_. None) syns,
      deserialized_forward_gradients = map (\<lambda>_. None) syns,
      forward_response_tensors = [],
      response_synapses = [],
      request_synapses = synapses req,
      future_bound = False,
      clock_reads = 1,
      trace = []\<rparr>"

text \<open>Lines 488-523: the empty request, then the invalid request, then the request length.\<close>

definition validate_backward ::
  "('w, 's, 'p, 'x) axon \<Rightarrow> ('w, 'p) request \<Rightarrow> 's list \<Rightarrow> ('w, 'p, 'x) call_state \<Rightarrow> ('w, 'p, 'x) step" where
  "validate_backward self req syns st =
     (if length (tensors req) = 0 then
        return_failure self syns EmptyRequest (fail_all self EmptyRequest ''Empty Request'' syns st)
      else if length (tensors req) < 2 then
        return_failure self syns InvalidRequest
          (fail_all self InvalidRequest
             (''Backward request contains '' @ str_nat (length (tensors req)) @ '' tensors, expected atleast 2 tensor in the backward call'')
             syns st)
      else if length (tensors req) \<noteq> 2 * length syns then
        return_failure self syns RequestShapeException
          (fail_all self RequestShapeException ''Request length doesn't match synape length.'' syns st)
      else Continue st)"

text \<open>
  One round of the decode loop (lines 528-541): the forward tensor, then the gradient,
  which is the tensor at \<^verbatim>\<open>len(synapses) + index\<close>.
\<close>

definition deserialize_backward_input ::
  "('w, 's, 'p, 'x) axon \<Rightarrow> ('w, 'p) request \<Rightarrow> nat \<Rightarrow> nat \<times> 's \<Rightarrow> ('w, 'p, 'x) call_state \<Rightarrow> ('w, 'p, 'x) call_state" where
  "deserialize_backward_input self req n = (\<lambda>(index, synapse) st.
     (case py_index (tensors req) index of
        Inl e \<Rightarrow> decode_failed self index e st
      | Inr t \<Rightarrow>
          (let st1 = log_event (DeserializeForwardRequestTensor index) st
           in case deserialize_forward_request_tensor self synapse t of
                Inl e \<Rightarrow> decode_failed self index e st1
              | Inr x \<Rightarrow>
                  (let st2 = st1\<lparr>deserialized_forward_tensors := (deserialized_forward_tensors st1)[index := Some x]\<rparr>
                   in case py_index (tensors req) (n + index) of
                        Inl e \<Rightarrow> decode_failed self index e st2
                      | Inr g \<Rightarrow>
                          (let st3 = log_event (DeserializeBackwardRequestGradient index) st2
                           in case deserialize_backward_request_gradient self synapse x g of
                                Inl e \<Rightarrow> decode_failed self index e st3
                              | Inr dy \<Rightarrow>
                                  st3\<lparr>deserialized_forward_gradients :=
                                        (deserialized_forward_gradients st3)[index := Some dy]\<rparr>)))))"

text \<open>Lines 528-541: the decode loop.\<close>

definition decode_backward_loop ::
  "('w, 's, 'p, 'x) axon \<Rightarrow> ('w, 'p) request \<Rightarrow> 's list \<Rightarrow> ('w, 'p, 'x) call_state \<Rightarrow> ('w, 'p, 'x) call_state" where
  "decode_backward_loop self req syns st =
     fold (deserialize_backward_input self req (length syns)) (enumerate 0 syns) st"

text \<open>Lines 528-545: the decode loop and the check after it.\<close>

definition decode_backward ::
  "('w, 's, 'p, 'x) axon \<Rightarrow> ('w, 'p) request \<Rightarrow> 's list \<Rightarrow> ('w, 'p, 'x) call_state \<Rightarrow> ('w, 'p, 'x) step" where
  "decode_backward self req syns st = return_if_all_failed self syns (decode_backward_loop self req syns st)"

text \<open>
  The body of the \<^verbatim>\<open>try\<close> of lines 551-574. With a priority function the task is submitted
  and the future dropped; without one the callback is called and its codes are copied.
\<close>

definition backward_calls_try ::
  "('w, 's, 'p, 'x) axon \<Rightarrow> ('w, 'p) request \<Rightarrow> 's list \<Rightarrow> ('w, 'p, 'x) call_state
     \<Rightarrow> (exn \<times> ('w, 'p, 'x) call_state) + ('w, 'p, 'x) call_state" where
  "backward_calls_try self req syns st =
     (let st0 = finalize_codes_stats_and_logs self syns st;
          st1 = st0\<lparr>synapse_is_response := map (\<lambda>_. True) syns\<rparr>;
          inputs_x = deserialized_forward_tensors st1;
          grads_dy = deserialized_forward_gradients st1
      in case priority self of
           Some priority_fn \<Rightarrow>
             (let st2 = log_event Priority st1
              in case priority_fn (hotkey req) inputs_x BACKWARD of
                   Inl e \<Rightarrow> Inl (e, st2)
                 | Inr p \<Rightarrow>
                     (let st3 = log_event Submit st2
                      in case priority_threadpool_submit self
                                (\<lambda>_. backward_callback self inputs_x grads_dy syns) p of
                           Inl e \<Rightarrow> Inl (e, st3)
                         | Inr future \<Rightarrow> Inr st3))
         | None \<Rightarrow>
             (let st2 = log_event BackwardCallback st1
              in case backward_callback self inputs_x grads_dy syns of
                   Inl e \<Rightarrow> Inl (e, st2)
                 | Inr (response_tensors, codes, msgs) \<Rightarrow> fill_codes [0..<length syns] codes msgs st2))"

text \<open>The handlers of lines 579-600.\<close>

definition backward_calls_failed ::
  "('w, 's, 'p, 'x) axon \<Rightarrow> 's list \<Rightarrow> exn \<Rightarrow> ('w, 'p, 'x) call_state \<Rightarrow> ('w, 'p, 'x) step" where
  "backward_calls_failed self syns e st =
     (case e of
        TimeoutError m \<Rightarrow>
          return_failure self syns Timeout (fail_all self Timeout ''Request reached timeout'' syns st)
      | _ \<Rightarrow>
          return_failure self syns UnknownException (fail_all self UnknownException (str e) syns st))"

text \<open>Lines 551-605: the compute stage and the check after it.\<close>

definition backward_calls ::
  "('w, 's, 'p, 'x) axon \<Rightarrow> ('w, 'p) request \<Rightarrow> 's list \<Rightarrow> ('w, 'p, 'x) call_state \<Rightarrow> ('w, 'p, 'x) step" where
  "backward_calls self req syns st =
     (case backward_calls_try self req syns st of
        Inr st' \<Rightarrow> return_if_all_failed self syns st'
      | Inl (e, st') \<Rightarrow> backward_calls_failed self syns e st')"

text \<open>Lines 610-615.\<close>

definition finish_backward ::
  "('w, 's, 'p, 'x) axon \<Rightarrow> 's list \<Rightarrow> ('w, 'p, 'x) call_state \<Rightarrow> ('w, 'p, 'x) returned" where
  "finish_backward self syns st =
     (let st1 = finalize_codes_stats_and_logs self syns (fold (set_return_time self) [0..<length syns] st)
      in \<lparr>ret_tensors = [], ret_code = Success, ret_synapses = request_synapses st1, ret_state = st1\<rparr>)"

definition backward_stages ::
  "('w, 's, 'p, 'x) axon \<Rightarrow> ('w, 'p) request \<Rightarrow> 's list \<Rightarrow> (('w, 'p, 'x) call_state \<Rightarrow> ('w, 'p, 'x) step) list" where
  "backward_stages self req syns =
     [validate_backward self req syns, decode_backward self req syns, backward_calls self req syns]"

definition backward_pipeline ::
  "('w, 's, 'p, 'x) axon \<Rightarrow> ('w, 'p) request \<Rightarrow> 's list \<Rightarrow> exn + ('w, 'p, 'x) returned" where
  "backward_pipeline self req syns =
     finish (finish_backward self syns) (run (backward_stages self req syns) (init_backward self req syns))"

text \<open>\<^verbatim>\<open>Axon._backward\<close>.\<close>

definition axon_backward ::
  "('w, 's, 'p, 'x) axon \<Rightarrow> ('w, 'p) request \<Rightarrow> exn + ('w, 'p, 'x) returned" where
  "axon_backward self req =
     (case deserialize_synapses self (synapses req) of
        Inl e \<Rightarrow> Inl e
      | Inr syns \<Rightarrow> backward_pipeline self req syns)"

subsection \<open>The RPC wrappers (lines 129-181)\<close>

record ('w, 'p) tensor_message =
  msg_version :: int
  msg_hotkey :: string
  msg_return_code :: return_code
  msg_tensors :: "'p list"
  msg_requires_grad :: bool
  msg_synapses :: "'w wire_synapse list"

definition response_message ::
  "('w, 's, 'p, 'x) axon \<Rightarrow> ('w, 'p) request \<Rightarrow> ('w, 'p, 'x) returned \<Rightarrow> ('w, 'p) tensor_message" where
  "response_message self req r =
     \<lparr>msg_version = version_as_int self, msg_hotkey = wallet_hotkey self, msg_return_code = ret_code r,
      msg_tensors = ret_tensors r, msg_requires_grad = requires_grad req, msg_synapses = ret_synapses r\<rparr>"

definition Forward :: "('w, 's, 'p, 'x) axon \<Rightarrow> ('w, 'p) request \<Rightarrow> exn + ('w, 'p) tensor_message" where
  "Forward self req = map_sum id (response_message self req) (axon_forward self req)"

definition Backward :: "('w, 's, 'p, 'x) axon \<Rightarrow> ('w, 'p) request \<Rightarrow> exn + ('w, 'p) tensor_message" where
  "Backward self req = map_sum id (response_message self req) (axon_backward self req)"

subsection \<open>A concrete axon\<close>

text \<open>
  Descriptors and synapses are numbers, serialized tensors are strings and tensors are
  integers. A descriptor with tag 0 does not deserialize; the payload \<open>''bad''\<close> has the wrong
  shape and \<open>''junk''\<close> does not parse. The clock advances by one at every reading.
\<close>

definition demo_callback_result :: "int callback_result" where
  "demo_callback_result = ([Some 7, Some 8], [Success, NotImplemented], [''Success'', ''Not Implemented''])"

definition demo_axon :: "(nat, nat, string, int) axon" where
  "demo_axon =
     \<lparr>wallet_hotkey = ''server'',
      version_as_int = 1,
      forward_callback = (\<lambda>inputs_x syns hk. Inr demo_callback_result),
      backward_callback = (\<lambda>inputs_x grads_dy syns. Inr demo_callback_result),
      forward_timeout = Some 10,
      priority = None,
      priority_threadpool_submit = (\<lambda>task p. Inr (\<lambda>timeout. task ())),
      prometheus = False,
      synapse_deserialize =
        (\<lambda>w. if synapse_args w = 0 then Inl (ValueError ''Synapse type is unknown.'') else Inr (synapse_args w)),
      synapse_empty = (\<lambda>s. []),
      deserialize_forward_request_tensor =
        (\<lambda>s t. if t = ''bad'' then Inl (ValueError ''shape'')
                else if t = ''junk'' then Inl (Exception ''parse'') else Inr (int (length t))),
      deserialize_backward_request_gradient =
        (\<lambda>s x t. if t = ''bad'' then Inl (ValueError ''shape'')
                  else if t = ''junk'' then Inl (Exception ''parse'') else Inr (int (length t))),
      serialize_forward_response_tensor =
        (\<lambda>s x y. case y of None \<Rightarrow> Inl (ValueError ''Empty Response'') | Some v \<Rightarrow> Inr (replicate (nat v) CHR ''a'')),
      serialize_to_wire_proto = (\<lambda>s code msg. \<lparr>synapse_args = s, return_code = code, message = msg\<rparr>),
      clock_time = (\<lambda>k. real k)\<rparr>"

definition demo_wire :: "nat \<Rightarrow> nat wire_synapse" where
  "demo_wire tag = \<lparr>synapse_args = tag, return_code = Success, message = []\<rparr>"

definition demo_request :: "string list \<Rightarrow> nat list \<Rightarrow> (nat, string) request" where
  "demo_request payloads tags =
     \<lparr>hotkey = ''caller'', requires_grad = True, tensors = payloads, synapses = map demo_wire tags\<rparr>"

text \<open>
  The same axon with a priority function: one that returns a priority, one that raises
  an exception, and one that raises a timeout (a priority function that waits for
  something with a deadline).
\<close>

definition demo_priority_axon :: "(nat, nat, string, int) axon" where
  "demo_priority_axon = demo_axon\<lparr>priority := Some (\<lambda>hk inputs_x kind. Inr 1)\<rparr>"

definition demo_raising_priority_axon :: "(nat, nat, string, int) axon" where
  "demo_raising_priority_axon =
     demo_axon\<lparr>priority := Some (\<lambda>hk inputs_x kind. Inl (Exception ''unknown hotkey''))\<rparr>"

definition demo_timeout_priority_axon :: "(nat, nat, string, int) axon" where
  "demo_timeout_priority_axon =
     demo_axon\<lparr>priority := Some (\<lambda>hk inputs_x kind. Inl (TimeoutError ''timed out''))\<rparr>"

text \<open>A pool whose future times out, as when the callback is slower than the deadline.\<close>

definition demo_slow_axon :: "(nat, nat, string, int) axon" where
  "demo_slow_axon =
     demo_priority_axon\<lparr>priority_threadpool_submit := (\<lambda>task p. Inr (\<lambda>timeout. Inl (TimeoutError [])))\<rparr>"

text \<open>The same axon with a forward callback that reports a failure for both synapses.\<close>

definition demo_failing_callback_axon :: "(nat, nat, string, int) axon" where
  "demo_failing_callback_axon =
     demo_axon\<lparr>forward_callback := (\<lambda>inputs_x syns hk.
        Inr ([None, None], [UnknownException, NotImplemented], [''Synapse Check Failed'', ''Not Implemented'']))\<rparr>"

text \<open>The same axon with a forward callback that raises.\<close>

definition demo_raising_callback_axon :: "(nat, nat, string, int) axon" where
  "demo_raising_callback_axon =
     demo_axon\<lparr>forward_callback := (\<lambda>inputs_x syns hk. Inl (Exception ''out of memory''))\<rparr>"

subsection \<open>Predicates of the properties\<close>

text \<open>The outcome lists are as long as the synapses.\<close>

definition outcomes_aligned :: "'s list \<Rightarrow> ('w, 'p, 'x) call_state \<Rightarrow> bool" where
  "outcomes_aligned syns st \<longleftrightarrow>
     length (synapse_codes st) = length syns \<and>
     length (synapse_messages st) = length syns \<and>
     length (synapse_call_times st) = length syns \<and>
     length (synapse_is_response st) = length syns"

text \<open>The state in which a stage leaves the call, whether it goes on or returns.\<close>

definition step_aligned :: "'s list \<Rightarrow> ('w, 'p, 'x) step \<Rightarrow> bool" where
  "step_aligned syns s =
     (case s of Continue st \<Rightarrow> outcomes_aligned syns st
              | Return r \<Rightarrow> outcomes_aligned syns (ret_state r)
              | Raise e \<Rightarrow> True)"

text \<open>The calls of the compute stage: priority function, pool, future and callbacks.\<close>

definition compute_events :: "event set" where
  "compute_events = {Priority, Submit, FutureResult, FutureCancel, ForwardCallback, BackwardCallback}"

text \<open>The calls of the decode stage.\<close>

definition decode_events :: "event set" where
  "decode_events = range DeserializeForwardRequestTensor \<union> range DeserializeBackwardRequestGradient"

text \<open>Whether the decode round of one synapse goes through without an exception.\<close>

definition forward_input_decodes :: "('w, 's, 'p, 'x) axon \<Rightarrow> ('w, 'p) request \<Rightarrow> nat \<Rightarrow> 's \<Rightarrow> bool" where
  "forward_input_decodes self req index synapse =
     (case py_index (tensors req) index of
        Inl e \<Rightarrow> False
      | Inr t \<Rightarrow> \<not> isl (deserialize_forward_request_tensor self synapse t))"

definition backward_input_decodes :: "('w, 's, 'p, 'x) axon \<Rightarrow> ('w, 'p) request \<Rightarrow> nat \<Rightarrow> nat \<Rightarrow> 's \<Rightarrow> bool" where
  "backward_input_decodes self req n index synapse =
     (case py_index (tensors req) index of
        Inl e \<Rightarrow> False
      | Inr t \<Rightarrow>
          (case deserialize_forward_request_tensor self synapse t of
             Inl e \<Rightarrow> False
           | Inr x \<Rightarrow>
               (case py_index (tensors req) (n + index) of
                  Inl e \<Rightarrow> False
                | Inr g \<Rightarrow> \<not> isl (deserialize_backward_request_gradient self synapse x g))))"

text \<open>
  The calls of one round of the backward decode loop on a request with two tensors per
  synapse: the forward tensor is deserialized, and the gradient when that went through.
\<close>

definition backward_decode_calls :: "('w, 's, 'p, 'x) axon \<Rightarrow> ('w, 'p) request \<Rightarrow> nat \<times> 's \<Rightarrow> event list" where
  "backward_decode_calls self req = (\<lambda>(index, synapse).
     if forward_input_decodes self req index synapse
     then [DeserializeForwardRequestTensor index, DeserializeBackwardRequestGradient index]
     else [DeserializeForwardRequestTensor index])"


subsection \<open>The concrete axons, unfolded\<close>

lemmas demo_defs = demo_axon_def demo_request_def demo_wire_def demo_callback_result_def
  demo_priority_axon_def demo_raising_priority_axon_def demo_timeout_priority_axon_def
  demo_slow_axon_def demo_failing_callback_axon_def demo_raising_callback_axon_def

subsection \<open>Basic facts\<close>

lemma deserialize_synapses_length:
  "deserialize_synapses self ws = Inr syns \<Longrightarrow> length syns = length ws"
  by (induction ws arbitrary: syns) (auto split: sum.splits)

lemma all_non_success_iff: "all_non_success codes \<longleftrightarrow> Success \<notin> set codes"
  by (induction codes) auto

lemma run_append:
  "run (xs @ ys) st = (case run xs st of Continue st' \<Rightarrow> run ys st' | Return r \<Rightarrow> Return r | Raise e \<Rightarrow> Raise e)"
  by (induction xs arbitrary: st) (auto split: step.splits)

lemma run_invariant:
  assumes "\<And>stage st. stage \<in> set stages \<Longrightarrow> outcomes_aligned syns st \<Longrightarrow> step_aligned syns (stage st)"
    and "outcomes_aligned syns st"
  shows "step_aligned syns (run stages st)"
  using assms
proof (induction stages arbitrary: st)
  case Nil
  then show ?case by (simp add: step_aligned_def)
next
  case (Cons stage stages)
  have a: "step_aligned syns (stage st)" using Cons.prems by simp
  show ?case
  proof (cases "stage st")
    case (Continue st')
    then have "outcomes_aligned syns st'" using a by (simp add: step_aligned_def)
    then have "step_aligned syns (run stages st')" using Cons.IH Cons.prems(1) by simp
    then show ?thesis using Continue by simp
  next
    case (Return r)
    then show ?thesis using a by simp
  next
    case (Raise e)
    then show ?thesis by (simp add: step_aligned_def)
  qed
qed

lemma aligned_log_event [simp]: "outcomes_aligned syns (log_event e st) = outcomes_aligned syns st"
  by (simp add: outcomes_aligned_def log_event_def)

lemma aligned_clock_tick [simp]: "outcomes_aligned syns (clock_tick st) = outcomes_aligned syns st"
  by (simp add: outcomes_aligned_def clock_tick_def)

lemma aligned_finalize [simp]:
  "outcomes_aligned syns (finalize_codes_stats_and_logs self syns' st) = outcomes_aligned syns st"
  by (simp add: outcomes_aligned_def finalize_codes_stats_and_logs_def clock_tick_def Let_def)

lemma aligned_fail_all: "outcomes_aligned syns st \<Longrightarrow> outcomes_aligned syns (fail_all self code msg syns st)"
  by (simp add: outcomes_aligned_def fail_all_def clock_tick_def Let_def)

lemma aligned_fail_one: "outcomes_aligned syns st \<Longrightarrow> outcomes_aligned syns (fail_one self index code msg st)"
  by (simp add: outcomes_aligned_def fail_one_def clock_tick_def)

lemma aligned_set_return_time:
  "outcomes_aligned syns st \<Longrightarrow> outcomes_aligned syns (set_return_time self index st)"
  by (simp add: outcomes_aligned_def set_return_time_def clock_tick_def)

lemma aligned_return_failure:
  "outcomes_aligned syns st \<Longrightarrow> step_aligned syns (return_failure self syns code st)"
  by (simp add: step_aligned_def return_failure_def Let_def)

lemma aligned_return_if_all_failed:
  "outcomes_aligned syns st \<Longrightarrow> step_aligned syns (return_if_all_failed self syns st)"
  using aligned_return_failure [of syns st]
  by (auto simp: return_if_all_failed_def step_aligned_def split: sum.splits)

lemma aligned_decode_failed:
  "outcomes_aligned syns st \<Longrightarrow> outcomes_aligned syns (decode_failed self index e st)"
  by (cases e) (simp_all add: decode_failed_def aligned_fail_one)

lemma aligned_deserialize_forward_input:
  "outcomes_aligned syns st \<Longrightarrow> outcomes_aligned syns (deserialize_forward_input self req ix st)"
  using aligned_decode_failed [of syns _ self]
  by (cases ix) (auto simp: deserialize_forward_input_def Let_def outcomes_aligned_def log_event_def split: sum.splits)

subsection \<open>The outcome lists keep their length\<close>

lemma aligned_deserialize_backward_input:
  "outcomes_aligned syns st \<Longrightarrow> outcomes_aligned syns (deserialize_backward_input self req n ix st)"
  using aligned_decode_failed [of syns _ self]
  by (cases ix) (auto simp: deserialize_backward_input_def Let_def outcomes_aligned_def log_event_def split: sum.splits)

lemma aligned_fold:
  assumes "\<And>x st. outcomes_aligned syns st \<Longrightarrow> outcomes_aligned syns (f x st)"
    and "outcomes_aligned syns st"
  shows "outcomes_aligned syns (fold f xs st)"
  using assms(2) by (induction xs arbitrary: st) (simp_all add: assms(1))

lemma aligned_fill_codes:
  "outcomes_aligned syns st \<Longrightarrow> fill_codes is codes msgs st = Inr st' \<Longrightarrow> outcomes_aligned syns st'"
proof (induction "is" arbitrary: st)
  case Nil
  then show ?case by simp
next
  case (Cons i "is")
  from Cons.prems(2) obtain c m where
    "fill_codes is codes msgs (st\<lparr>synapse_codes := (synapse_codes st)[i := c],
              synapse_messages := (synapse_messages st)[i := m]\<rparr>) = Inr st'"
    by (auto simp: Let_def split: sum.splits)
  moreover have "outcomes_aligned syns (st\<lparr>synapse_codes := (synapse_codes st)[i := c],
              synapse_messages := (synapse_messages st)[i := m]\<rparr>)"
    using Cons.prems(1) by (simp add: outcomes_aligned_def)
  ultimately show ?case using Cons.IH by blast
qed

lemma aligned_fill_codes_raised:
  "outcomes_aligned syns st \<Longrightarrow> fill_codes is codes msgs st = Inl (e, st') \<Longrightarrow> outcomes_aligned syns st'"
proof (induction "is" arbitrary: st)
  case Nil
  then show ?case by simp
next
  case (Cons i "is")
  have a: "outcomes_aligned syns (st\<lparr>synapse_codes := (synapse_codes st)[i := c]\<rparr>)" for c
    using Cons.prems(1) by (simp add: outcomes_aligned_def)
  have b: "outcomes_aligned syns (st\<lparr>synapse_codes := (synapse_codes st)[i := c],
              synapse_messages := (synapse_messages st)[i := m]\<rparr>)" for c m
    using Cons.prems(1) by (simp add: outcomes_aligned_def)
  show ?case
  proof (cases "py_index codes i")
    case (Inl e1)
    then show ?thesis using Cons.prems by simp
  next
    case c: (Inr c)
    show ?thesis
    proof (cases "py_index msgs i")
      case (Inl e2)
      then show ?thesis using Cons.prems(2) c a by (auto simp: Let_def)
    next
      case (Inr m)
      then show ?thesis using Cons.prems(2) c Cons.IH [OF b] by (simp add: Let_def)
    qed
  qed
qed

lemma aligned_validate_forward:
  "outcomes_aligned syns st \<Longrightarrow> step_aligned syns (validate_forward self req syns st)"
  by (simp add: validate_forward_def aligned_return_failure aligned_fail_all)
     (simp add: step_aligned_def)

lemma aligned_validate_backward:
  "outcomes_aligned syns st \<Longrightarrow> step_aligned syns (validate_backward self req syns st)"
  by (simp add: validate_backward_def aligned_return_failure aligned_fail_all)
     (simp add: step_aligned_def)

lemma aligned_decode_forward_loop:
  assumes "outcomes_aligned syns st"
  shows "outcomes_aligned syns (decode_forward_loop self req syns st)"
proof -
  have "outcomes_aligned syns (st\<lparr>deserialized_forward_tensors := map (\<lambda>_. None) syns\<rparr>)"
    using assms by (simp add: outcomes_aligned_def)
  then show ?thesis
    unfolding decode_forward_loop_def
    by (rule aligned_fold [rotated]) (rule aligned_deserialize_forward_input)
qed

lemma aligned_decode_forward:
  "outcomes_aligned syns st \<Longrightarrow> step_aligned syns (decode_forward self req syns st)"
  unfolding decode_forward_def
  by (rule aligned_return_if_all_failed) (rule aligned_decode_forward_loop)

lemma aligned_decode_backward_loop:
  "outcomes_aligned syns st \<Longrightarrow> outcomes_aligned syns (decode_backward_loop self req syns st)"
  unfolding decode_backward_loop_def
  by (rule aligned_fold) (simp_all add: aligned_deserialize_backward_input)

lemma aligned_decode_backward:
  "outcomes_aligned syns st \<Longrightarrow> step_aligned syns (decode_backward self req syns st)"
  unfolding decode_backward_def
  by (rule aligned_return_if_all_failed) (rule aligned_decode_backward_loop)

lemma aligned_forward_calls_try:
  fixes st :: "('w, 'p, 'x) call_state"
  assumes "outcomes_aligned syns st"
    and "forward_calls_try self req syns st = Inr st' \<or> forward_calls_try self req syns st = Inl (e, st')"
  shows "outcomes_aligned syns st'"
proof -
  have f: "outcomes_aligned syns
             ((log_event ev s)\<lparr>forward_response_tensors := ts, synapse_is_response := map (\<lambda>_. True) syns\<rparr>)"
    if "outcomes_aligned syns s" for s :: "('w, 'p, 'x) call_state" and ts ev
    using that by (simp add: outcomes_aligned_def log_event_def)
  have g: "outcomes_aligned syns (s\<lparr>future_bound := True\<rparr>) = outcomes_aligned syns s"
    for s :: "('w, 'p, 'x) call_state"
    by (simp add: outcomes_aligned_def)
  show ?thesis
    using assms
    by (auto simp: forward_calls_try_def Let_def g split: option.splits sum.splits prod.splits
          dest!: aligned_fill_codes [OF f, rotated] aligned_fill_codes_raised [OF f, rotated])
qed

lemma aligned_forward_calls_failed:
  "outcomes_aligned syns st \<Longrightarrow> step_aligned syns (forward_calls_failed self syns e st)"
  by (cases e)
     (simp_all add: forward_calls_failed_def aligned_return_failure aligned_fail_all, simp add: step_aligned_def)

lemma aligned_forward_calls:
  "outcomes_aligned syns st \<Longrightarrow> step_aligned syns (forward_calls self req syns st)"
  using aligned_forward_calls_try [of syns st self req]
  by (auto simp: forward_calls_def aligned_forward_calls_failed split: sum.splits)
     (simp add: step_aligned_def)

lemma aligned_backward_calls_try:
  assumes "outcomes_aligned syns st"
    and "backward_calls_try self req syns st = Inr st' \<or> backward_calls_try self req syns st = Inl (e, st')"
  shows "outcomes_aligned syns st'"
proof -
  have f: "outcomes_aligned syns (log_event ev ((finalize_codes_stats_and_logs self syns st)\<lparr>synapse_is_response := map (\<lambda>_. True) syns\<rparr>))"
    for ev
    using assms(1) by (simp add: outcomes_aligned_def log_event_def finalize_codes_stats_and_logs_def Let_def clock_tick_def)
  show ?thesis
    using assms(2) f aligned_fill_codes [OF f] aligned_fill_codes_raised [OF f]
    by (auto simp: backward_calls_try_def Let_def split: option.splits sum.splits prod.splits)
qed

lemma aligned_backward_calls_failed:
  "outcomes_aligned syns st \<Longrightarrow> step_aligned syns (backward_calls_failed self syns e st)"
  by (cases e) (simp_all add: backward_calls_failed_def aligned_return_failure aligned_fail_all)

lemma aligned_backward_calls:
  "outcomes_aligned syns st \<Longrightarrow> step_aligned syns (backward_calls self req syns st)"
  using aligned_backward_calls_try [of syns st self req]
  by (auto simp: backward_calls_def aligned_backward_calls_failed aligned_return_if_all_failed split: sum.splits)

lemma aligned_encode_failed:
  "outcomes_aligned syns st \<Longrightarrow> outcomes_aligned syns (encode_failed self index synapse e st)"
  using aligned_fail_one [of syns st self index]
  by (cases e) (simp_all add: encode_failed_def Let_def outcomes_aligned_def log_event_def)

lemma aligned_serialize_forward_response:
  "outcomes_aligned syns st \<Longrightarrow> outcomes_aligned syns (serialize_forward_response self ix st)"
  using aligned_encode_failed [of syns _ self]
  by (cases ix) (auto simp: serialize_forward_response_def Let_def outcomes_aligned_def log_event_def split: sum.splits)

lemma aligned_encode_forward_loop:
  assumes "outcomes_aligned syns st"
  shows "outcomes_aligned syns (encode_forward_loop self syns st)"
proof -
  have "outcomes_aligned syns (st\<lparr>response_synapses := []\<rparr>)"
    using assms by (simp add: outcomes_aligned_def)
  then show ?thesis
    unfolding encode_forward_loop_def
    by (rule aligned_fold [rotated]) (rule aligned_serialize_forward_response)
qed

lemma aligned_encode_forward:
  "outcomes_aligned syns st \<Longrightarrow> step_aligned syns (encode_forward self syns st)"
  unfolding encode_forward_def
  by (rule aligned_return_if_all_failed) (rule aligned_encode_forward_loop)

lemma aligned_finish_forward:
  "outcomes_aligned syns st \<Longrightarrow> outcomes_aligned syns (ret_state (finish_forward self syns st))"
  by (simp add: finish_forward_def Let_def aligned_fold aligned_set_return_time)

lemma aligned_finish_backward:
  "outcomes_aligned syns st \<Longrightarrow> outcomes_aligned syns (ret_state (finish_backward self syns st))"
  by (simp add: finish_backward_def Let_def aligned_fold aligned_set_return_time)

lemma aligned_init_forward: "outcomes_aligned syns (init_forward self req syns)"
  by (simp add: outcomes_aligned_def init_forward_def)

lemma aligned_init_backward: "outcomes_aligned syns (init_backward self req syns)"
  by (simp add: outcomes_aligned_def init_backward_def)

lemma aligned_forward_run:
  fixes self :: "('w, 's, 'p, 'x) axon"
  shows "step_aligned syns (run (take k (forward_stages self req syns)) (init_forward self req syns))"
proof (rule run_invariant [OF _ aligned_init_forward])
  fix stage and st :: "('w, 'p, 'x) call_state"
  assume s: "stage \<in> set (take k (forward_stages self req syns))" and a: "outcomes_aligned syns st"
  from s have "stage \<in> set (forward_stages self req syns)" by (rule in_set_takeD)
  then show "step_aligned syns (stage st)"
    using a aligned_validate_forward aligned_decode_forward aligned_forward_calls aligned_encode_forward
    by (auto simp: forward_stages_def)
qed

lemma aligned_backward_run:
  fixes self :: "('w, 's, 'p, 'x) axon"
  shows "step_aligned syns (run (take k (backward_stages self req syns)) (init_backward self req syns))"
proof (rule run_invariant [OF _ aligned_init_backward])
  fix stage and st :: "('w, 'p, 'x) call_state"
  assume s: "stage \<in> set (take k (backward_stages self req syns))" and a: "outcomes_aligned syns st"
  from s have "stage \<in> set (backward_stages self req syns)" by (rule in_set_takeD)
  then show "step_aligned syns (stage st)"
    using a aligned_validate_backward aligned_decode_backward aligned_backward_calls
    by (auto simp: backward_stages_def)
qed

text \<open>
  C3. The synapses derived from the request are \<open>syns\<close>. Before any stage runs, every
  outcome is Success, with the message Success, no response yet and call time 0, in
  \<^verbatim>\<open>_forward\<close> and in \<^verbatim>\<open>_backward\<close>. After every number \<open>k\<close> of stages, whether the call goes
  on or has returned, the lists of codes, messages, call times and response markers are as
  long as the synapses; so they are in the state of every return of the two functions.
\<close>

theorem outcomes_aligned_after_every_stage:
  fixes self :: "('w, 's, 'p, 'x) axon"
  assumes "deserialize_synapses self (synapses req) = Inr syns"
  shows "length syns = length (synapses req) \<and>
    synapse_codes (init_forward self req syns) = replicate (length syns) Success \<and>
    synapse_messages (init_forward self req syns) = replicate (length syns) ''Success'' \<and>
    synapse_is_response (init_forward self req syns) = replicate (length syns) False \<and>
    synapse_call_times (init_forward self req syns) = replicate (length syns) 0 \<and>
    synapse_codes (init_backward self req syns) = replicate (length syns) Success \<and>
    synapse_messages (init_backward self req syns) = replicate (length syns) ''Success'' \<and>
    synapse_is_response (init_backward self req syns) = replicate (length syns) False \<and>
    synapse_call_times (init_backward self req syns) = replicate (length syns) 0 \<and>
    (\<forall>k. step_aligned syns (run (take k (forward_stages self req syns)) (init_forward self req syns))) \<and>
    (\<forall>k. step_aligned syns (run (take k (backward_stages self req syns)) (init_backward self req syns))) \<and>
    (\<forall>r. axon_forward self req = Inr r \<longrightarrow> outcomes_aligned syns (ret_state r)) \<and>
    (\<forall>r. axon_backward self req = Inr r \<longrightarrow> outcomes_aligned syns (ret_state r))"
proof -
  have inits: "synapse_codes (init_forward self req syns) = replicate (length syns) Success \<and>
    synapse_messages (init_forward self req syns) = replicate (length syns) ''Success'' \<and>
    synapse_is_response (init_forward self req syns) = replicate (length syns) False \<and>
    synapse_call_times (init_forward self req syns) = replicate (length syns) 0 \<and>
    synapse_codes (init_backward self req syns) = replicate (length syns) Success \<and>
    synapse_messages (init_backward self req syns) = replicate (length syns) ''Success'' \<and>
    synapse_is_response (init_backward self req syns) = replicate (length syns) False \<and>
    synapse_call_times (init_backward self req syns) = replicate (length syns) 0"
    by (simp add: init_forward_def init_backward_def map_replicate_const)
  have fwd: "outcomes_aligned syns (ret_state r)" if "axon_forward self req = Inr r" for r
  proof -
    have p: "finish (finish_forward self syns)
               (run (take 4 (forward_stages self req syns)) (init_forward self req syns)) = Inr r"
      using that assms by (simp add: axon_forward_def forward_pipeline_def forward_stages_def)
    show ?thesis
      using p aligned_forward_run [of syns 4 self req] aligned_finish_forward [of syns _ self]
      by (auto simp: finish_def step_aligned_def split: step.splits)
  qed
  have bwd: "outcomes_aligned syns (ret_state r)" if "axon_backward self req = Inr r" for r
  proof -
    have p: "finish (finish_backward self syns)
               (run (take 3 (backward_stages self req syns)) (init_backward self req syns)) = Inr r"
      using that assms by (simp add: axon_backward_def backward_pipeline_def backward_stages_def)
    show ?thesis
      using p aligned_backward_run [of syns 3 self req] aligned_finish_backward [of syns _ self]
      by (auto simp: finish_def step_aligned_def split: step.splits)
  qed
  show ?thesis
    using inits fwd bwd deserialize_synapses_length [OF assms] aligned_forward_run aligned_backward_run
    by blast
qed

theorem outcomes_aligned_after_every_stage_witness:
  "deserialize_synapses demo_axon (synapses (demo_request [''ab'', ''bad''] [1, 2])) = Inr [1, 2] \<and>
   (\<forall>k. step_aligned [1, 2 :: nat]
      (run (take k (forward_stages demo_axon (demo_request [''ab'', ''bad''] [1, 2]) [1, 2]))
         (init_forward demo_axon (demo_request [''ab'', ''bad''] [1, 2]) [1, 2]))) \<and>
   (case axon_forward demo_axon (demo_request [''ab'', ''bad''] [1, 2]) of
      Inl e \<Rightarrow> False
    | Inr r \<Rightarrow> outcomes_aligned [1, 2 :: nat] (ret_state r))"
proof -
  have h: "deserialize_synapses demo_axon (synapses (demo_request [''ab'', ''bad''] [1, 2])) = Inr [1, 2]"
    by (simp add: demo_defs)
  have "map_sum id ret_code (axon_forward demo_axon (demo_request [''ab'', ''bad''] [1, 2])) = Inr Success"
    by code_simp
  then obtain r where r: "axon_forward demo_axon (demo_request [''ab'', ''bad''] [1, 2]) = Inr r"
    by (cases "axon_forward demo_axon (demo_request [''ab'', ''bad''] [1, 2])") auto
  show ?thesis
    using h r outcomes_aligned_after_every_stage [OF h] by simp
qed

subsection \<open>What the stages return\<close>

lemma str_nat_0: "str_nat 0 = ''0''"
  by (simp add: str_nat.simps digit_def)

lemma str_nat_1: "str_nat (Suc 0) = ''1''"
  by (simp add: str_nat.simps digit_def)

lemma fold_write_back:
  "k \<le> length ws \<Longrightarrow>
     fold (write_back codes msgs) [0..<k] ws =
       map (\<lambda>i. (ws ! i)\<lparr>return_code := codes ! i, message := msgs ! i\<rparr>) [0..<k] @ drop k ws"
proof (induction k)
  case 0
  then show ?case by simp
next
  case (Suc k)
  let ?A = "map (\<lambda>i. (ws ! i)\<lparr>return_code := codes ! i, message := msgs ! i\<rparr>) [0..<k]"
  have k: "k < length ws" using Suc.prems by simp
  have d: "drop k ws = ws ! k # drop (Suc k) ws" using k by (simp add: Cons_nth_drop_Suc)
  have "fold (write_back codes msgs) [0..<Suc k] ws = write_back codes msgs k (?A @ drop k ws)"
    using Suc.IH k by simp
  also have "\<dots> = ?A @ [(ws ! k)\<lparr>return_code := codes ! k, message := msgs ! k\<rparr>] @ drop (Suc k) ws"
    by (simp add: write_back_def list_update_append nth_append d)
  finally show ?case by simp
qed

lemma finalize_request_synapses:
  assumes "length (request_synapses st) = length syns"
  shows "request_synapses (finalize_codes_stats_and_logs self syns st) =
           map (\<lambda>i. (request_synapses st ! i)\<lparr>return_code := synapse_codes st ! i, message := synapse_messages st ! i\<rparr>)
             [0..<length syns]"
  using fold_write_back [of "length syns" "request_synapses st"] assms
  by (simp add: finalize_codes_stats_and_logs_def Let_def clock_tick_def)

lemma finalize_codes_on_wire:
  assumes "length (request_synapses st) = length syns" and "length (synapse_codes st) = length syns"
  shows "map return_code (request_synapses (finalize_codes_stats_and_logs self syns st)) = synapse_codes st"
  using assms by (intro nth_equalityI) (simp_all add: finalize_request_synapses)

lemma length_fold_write_back [simp]: "length (fold (write_back codes msgs) is ws) = length ws"
  by (induction "is" arbitrary: ws) (simp_all add: write_back_def)

lemma finalize_fields [simp]:
  "synapse_codes (finalize_codes_stats_and_logs self syns st) = synapse_codes st"
  "synapse_messages (finalize_codes_stats_and_logs self syns st) = synapse_messages st"
  "synapse_call_times (finalize_codes_stats_and_logs self syns st) = synapse_call_times st"
  "synapse_is_response (finalize_codes_stats_and_logs self syns st) = synapse_is_response st"
  "synapse_responses (finalize_codes_stats_and_logs self syns st) = synapse_responses st"
  "response_synapses (finalize_codes_stats_and_logs self syns st) = response_synapses st"
  "trace (finalize_codes_stats_and_logs self syns st) = trace st @ [Finalize]"
  "length (request_synapses (finalize_codes_stats_and_logs self syns st)) = length (request_synapses st)"
  by (simp_all add: finalize_codes_stats_and_logs_def Let_def clock_tick_def)

lemma fail_all_fields [simp]:
  "synapse_codes (fail_all self code msg syns st) = replicate (length syns) code"
  "synapse_messages (fail_all self code msg syns st) = replicate (length syns) msg"
  "synapse_call_times (fail_all self code msg syns st) =
     replicate (length syns) (clock_time self (clock_reads st) - start_time st)"
  "synapse_is_response (fail_all self code msg syns st) = synapse_is_response st"
  "trace (fail_all self code msg syns st) = trace st"
  "request_synapses (fail_all self code msg syns st) = request_synapses st"
  by (simp_all add: fail_all_def Let_def clock_tick_def clock_now_def map_replicate_const)

lemma return_failure_fields [simp]:
  "return_failure self syns code st = Return r \<Longrightarrow>
     ret_tensors r = [] \<and> ret_code r = code \<and>
     ret_state r = finalize_codes_stats_and_logs self syns st \<and>
     ret_synapses r = request_synapses (finalize_codes_stats_and_logs self syns st)"
  by (auto simp: return_failure_def Let_def)

lemma return_failure_is_Return:
  "\<exists>r. return_failure self syns code st = Return r"
  by (simp add: return_failure_def Let_def)

lemma return_failure_not_Continue [simp]: "return_failure self syns code st \<noteq> Continue st'"
  and return_failure_not_Raise [simp]: "return_failure self syns code st \<noteq> Raise e"
  by (simp_all add: return_failure_def Let_def)

lemma return_if_all_failed_Continue:
  "return_if_all_failed self syns st = Continue st' \<longleftrightarrow> Success \<in> set (synapse_codes st) \<and> st' = st"
  by (auto simp: return_if_all_failed_def check_if_should_return_def all_non_success_iff split: sum.splits)

lemma return_if_all_failed_Return:
  "return_if_all_failed self syns st = Return r \<longleftrightarrow>
     Success \<notin> set (synapse_codes st) \<and> synapse_codes st \<noteq> [] \<and>
     return_failure self syns (hd (synapse_codes st)) st = Return r"
  by (auto simp: return_if_all_failed_def check_if_should_return_def all_non_success_iff py_index_def hd_conv_nth
      split: sum.splits if_splits)

lemma return_if_all_failed_Raise:
  "return_if_all_failed self syns st = Raise e \<Longrightarrow> synapse_codes st = []"
  by (auto simp: return_if_all_failed_def check_if_should_return_def py_index_def split: sum.splits if_splits)

lemma validate_forward_Continue:
  "validate_forward self req syns st = Continue st' \<longleftrightarrow>
     tensors req \<noteq> [] \<and> length (tensors req) = length syns \<and> st' = st"
  by (auto simp: validate_forward_def)

lemma validate_forward_not_Raise [simp]: "validate_forward self req syns st \<noteq> Raise e"
  by (simp add: validate_forward_def)

lemma validate_backward_Continue:
  "validate_backward self req syns st = Continue st' \<longleftrightarrow>
     2 \<le> length (tensors req) \<and> length (tensors req) = 2 * length syns \<and> st' = st"
  by (auto simp: validate_backward_def)

lemma validate_backward_not_Raise [simp]: "validate_backward self req syns st \<noteq> Raise e"
  by (simp add: validate_backward_def)

lemma init_fields [simp]:
  "trace (init_forward self req syns) = map SynapseEmpty [0..<length syns]"
  "trace (init_backward self req syns) = []"
  "clock_reads (init_forward self req syns) = 1"
  "clock_reads (init_backward self req syns) = 1"
  "start_time (init_forward self req syns) = clock_time self 0"
  "start_time (init_backward self req syns) = clock_time self 0"
  "request_synapses (init_forward self req syns) = synapses req"
  "request_synapses (init_backward self req syns) = synapses req"
  by (simp_all add: init_forward_def init_backward_def)

text \<open>
  C6, as the code has it. A call whose descriptors all deserialize and whose tensor
  sequence is empty, forward or backward: the function returns no tensors and the code
  EmptyRequest; every outcome has that code, the same message and the same elapsed time
  (the second clock reading minus the first); the request's descriptors carry the code;
  and the log of calls holds no decoding and no compute call: after the initialisation
  only the telemetry is called. (A descriptor that does not deserialize raises before
  the check of the tensors, see below.)
\<close>

theorem empty_request_rejected:
  fixes self :: "('w, 's, 'p, 'x) axon"
  assumes "deserialize_synapses self (synapses req) = Inr syns" and "tensors req = []"
  shows "(\<exists>r. axon_forward self req = Inr r \<and> ret_code r = EmptyRequest \<and> ret_tensors r = [] \<and>
            synapse_codes (ret_state r) = replicate (length syns) EmptyRequest \<and>
            synapse_messages (ret_state r) = replicate (length syns)
              ''Forward request contains 0 tensors, expected 1 tensor in the forward call'' \<and>
            synapse_call_times (ret_state r) = replicate (length syns) (clock_time self 1 - clock_time self 0) \<and>
            map return_code (ret_synapses r) = replicate (length syns) EmptyRequest \<and>
            trace (ret_state r) = map SynapseEmpty [0..<length syns] @ [Finalize]) \<and>
         (\<exists>r. axon_backward self req = Inr r \<and> ret_code r = EmptyRequest \<and> ret_tensors r = [] \<and>
            synapse_codes (ret_state r) = replicate (length syns) EmptyRequest \<and>
            synapse_messages (ret_state r) = replicate (length syns) ''Empty Request'' \<and>
            synapse_call_times (ret_state r) = replicate (length syns) (clock_time self 1 - clock_time self 0) \<and>
            map return_code (ret_synapses r) = replicate (length syns) EmptyRequest \<and>
            trace (ret_state r) = [Finalize])"
proof -
  have n: "length (synapses req) = length syns"
    using deserialize_synapses_length [OF assms(1)] by simp
  have f: "axon_forward self req =
      Inr \<lparr>ret_tensors = [], ret_code = EmptyRequest,
           ret_synapses = request_synapses (finalize_codes_stats_and_logs self syns
             (fail_all self EmptyRequest ''Forward request contains 0 tensors, expected 1 tensor in the forward call''
                syns (init_forward self req syns))),
           ret_state = finalize_codes_stats_and_logs self syns
             (fail_all self EmptyRequest ''Forward request contains 0 tensors, expected 1 tensor in the forward call''
                syns (init_forward self req syns))\<rparr>"
    using assms
    by (simp add: axon_forward_def forward_pipeline_def forward_stages_def validate_forward_def
          return_failure_def finish_def Let_def str_nat_0)
  have b: "axon_backward self req =
      Inr \<lparr>ret_tensors = [], ret_code = EmptyRequest,
           ret_synapses = request_synapses (finalize_codes_stats_and_logs self syns
             (fail_all self EmptyRequest ''Empty Request'' syns (init_backward self req syns))),
           ret_state = finalize_codes_stats_and_logs self syns
             (fail_all self EmptyRequest ''Empty Request'' syns (init_backward self req syns))\<rparr>"
    using assms
    by (simp add: axon_backward_def backward_pipeline_def backward_stages_def validate_backward_def
          return_failure_def finish_def Let_def)
  show ?thesis
    by (simp add: f b n finalize_codes_on_wire)
qed

theorem empty_request_rejected_witness:
  "deserialize_synapses demo_axon (synapses (demo_request [] [1, 2])) = Inr [1, 2] \<and>
   tensors (demo_request [] [1, 2]) = [] \<and>
   (\<exists>r. axon_forward demo_axon (demo_request [] [1, 2]) = Inr r \<and> ret_code r = EmptyRequest \<and>
      synapse_codes (ret_state r) = [EmptyRequest, EmptyRequest] \<and>
      synapse_call_times (ret_state r) = [1, 1] \<and>
      trace (ret_state r) = [SynapseEmpty 0, SynapseEmpty 1, Finalize]) \<and>
   (\<exists>r. axon_backward demo_axon (demo_request [] [1, 2]) = Inr r \<and> ret_code r = EmptyRequest \<and>
      synapse_codes (ret_state r) = [EmptyRequest, EmptyRequest] \<and>
      trace (ret_state r) = [Finalize])"
proof -
  have h: "deserialize_synapses demo_axon (synapses (demo_request [] [1, 2])) = Inr [1, 2]"
    by (simp add: demo_defs)
  have t: "tensors (demo_request [] [1, 2]) = []"
    by (simp add: demo_defs)
  have c: "clock_time demo_axon (Suc 0) - clock_time demo_axon 0 = 1"
    by (simp add: demo_axon_def)
  show ?thesis
    using h t empty_request_rejected [OF h t]
    by (auto simp: c upt_rec numeral_2_eq_2)
qed

text \<open>
  The deserialization of the descriptors comes first and is outside any \<^verbatim>\<open>try\<close>: when it
  raises, the exception leaves \<^verbatim>\<open>_forward\<close>, \<^verbatim>\<open>_backward\<close> and the two RPC wrappers, whatever
  the tensors are.
\<close>

lemma descriptor_failure_escapes:
  assumes "deserialize_synapses self (synapses req) = Inl e"
  shows "axon_forward self req = Inl e \<and> axon_backward self req = Inl e \<and>
         Forward self req = Inl e \<and> Backward self req = Inl e"
  using assms by (simp add: axon_forward_def axon_backward_def Forward_def Backward_def)

text \<open>
  The claim C6 as stated fails on a call with no tensors and a descriptor that does not
  deserialize: no code is returned, the exception of line 204 (line 433) escapes.
\<close>

theorem empty_request_malformed_descriptor_counterexample:
  "tensors (demo_request [] [0, 2]) = [] \<and>
   axon_forward demo_axon (demo_request [] [0, 2]) = Inl (ValueError ''Synapse type is unknown.'') \<and>
   axon_backward demo_axon (demo_request [] [0, 2]) = Inl (ValueError ''Synapse type is unknown.'') \<and>
   Forward demo_axon (demo_request [] [0, 2]) = Inl (ValueError ''Synapse type is unknown.'') \<and>
   Backward demo_axon (demo_request [] [0, 2]) = Inl (ValueError ''Synapse type is unknown.'')"
  by code_simp

lemma return_if_all_failed_not_Raise:
  "outcomes_aligned syns st \<Longrightarrow> syns \<noteq> [] \<Longrightarrow> return_if_all_failed self syns st \<noteq> Raise e"
  by (auto simp: outcomes_aligned_def dest!: return_if_all_failed_Raise)

lemma return_if_all_failed_tensors:
  "return_if_all_failed self syns st = Return r \<Longrightarrow> ret_tensors r = []"
  by (auto simp: return_if_all_failed_Return dest!: return_failure_fields)

lemma decode_backward_not_Raise:
  "outcomes_aligned syns st \<Longrightarrow> syns \<noteq> [] \<Longrightarrow> decode_backward self req syns st \<noteq> Raise e"
  unfolding decode_backward_def
  by (rule return_if_all_failed_not_Raise) (simp_all add: aligned_decode_backward_loop)

lemma decode_backward_tensors:
  "decode_backward self req syns st = Return r \<Longrightarrow> ret_tensors r = []"
  unfolding decode_backward_def by (rule return_if_all_failed_tensors)

lemma backward_calls_failed_Return:
  "\<exists>r. backward_calls_failed self syns e st = Return r \<and> ret_tensors r = [] \<and>
        ret_code r = (case e of TimeoutError m \<Rightarrow> Timeout | _ \<Rightarrow> UnknownException) \<and>
        synapse_codes (ret_state r) = replicate (length syns) (ret_code r)"
  by (cases e) (simp_all add: backward_calls_failed_def return_failure_def Let_def)

lemma backward_calls_not_Raise:
  assumes "outcomes_aligned syns st" and "syns \<noteq> []"
  shows "backward_calls self req syns st \<noteq> Raise e"
proof (cases "backward_calls_try self req syns st")
  case (Inl a)
  then show ?thesis
    using backward_calls_failed_Return [of self syns "fst a" "snd a"]
    by (cases a) (auto simp: backward_calls_def)
next
  case (Inr st')
  then have "outcomes_aligned syns st'"
    using aligned_backward_calls_try [OF assms(1)] by blast
  then show ?thesis
    using Inr assms(2) by (simp add: backward_calls_def return_if_all_failed_not_Raise)
qed

lemma backward_calls_tensors:
  assumes "backward_calls self req syns st = Return r"
  shows "ret_tensors r = []"
proof (cases "backward_calls_try self req syns st")
  case (Inl a)
  then show ?thesis
    using assms backward_calls_failed_Return [of self syns "fst a" "snd a"]
    by (cases a) (auto simp: backward_calls_def)
next
  case (Inr st')
  then show ?thesis
    using assms by (simp add: backward_calls_def return_if_all_failed_tensors)
qed

lemma validate_backward_tensors:
  "validate_backward self req syns st = Return r \<Longrightarrow> ret_tensors r = []"
  by (auto simp: validate_backward_def split: if_splits dest!: return_failure_fields)

lemma backward_pipeline_returns:
  fixes self :: "('w, 's, 'p, 'x) axon"
  shows "\<exists>r. backward_pipeline self req syns = Inr r \<and> ret_tensors r = []"
proof (cases "validate_backward self req syns (init_backward self req syns)")
  case (Continue st0)
  then have st0: "st0 = init_backward self req syns" and ne: "syns \<noteq> []"
    by (auto simp: validate_backward_Continue)
  have a0: "outcomes_aligned syns (init_backward self req syns)"
    by (rule aligned_init_backward)
  show ?thesis
  proof (cases "decode_backward self req syns (init_backward self req syns)")
    case c1: (Continue st1)
    have a1: "outcomes_aligned syns st1"
      using aligned_decode_backward [OF a0, of self req] c1 by (simp add: step_aligned_def)
    show ?thesis
    proof (cases "backward_calls self req syns st1")
      case c2: (Continue st2)
      then show ?thesis
        using Continue c1 st0
        by (simp add: backward_pipeline_def backward_stages_def finish_def finish_backward_def Let_def)
    next
      case (Return r)
      then show ?thesis
        using Continue c1 st0 backward_calls_tensors [OF Return]
        by (simp add: backward_pipeline_def backward_stages_def finish_def)
    next
      case (Raise e)
      then show ?thesis using backward_calls_not_Raise [OF a1 ne] by simp
    qed
  next
    case (Return r)
    then show ?thesis
      using Continue st0 decode_backward_tensors [OF Return]
      by (simp add: backward_pipeline_def backward_stages_def finish_def)
  next
    case (Raise e)
    then show ?thesis using decode_backward_not_Raise [OF a0 ne] by simp
  qed
next
  case (Return r)
  then show ?thesis
    using validate_backward_tensors [OF Return]
    by (simp add: backward_pipeline_def backward_stages_def finish_def)
next
  case (Raise e)
  then show ?thesis by simp
qed

text \<open>
  C9. A backward call either stops at a synapse descriptor that does not deserialize, with
  that exception and before any stage, or it returns; and a response that is returned
  carries no tensors, whatever the validation, the callback, the priority function and the
  pool do. So once the synapses are derived the call returns a message with no tensors.
\<close>

theorem backward_returns_no_tensors:
  fixes self :: "('w, 's, 'p, 'x) axon"
  shows "(case Backward self req of
            Inl e \<Rightarrow> deserialize_synapses self (synapses req) = Inl e
          | Inr response \<Rightarrow> msg_tensors response = []) \<and>
         (case axon_backward self req of
            Inl e \<Rightarrow> deserialize_synapses self (synapses req) = Inl e
          | Inr r \<Rightarrow> ret_tensors r = [])"
proof (cases "deserialize_synapses self (synapses req)")
  case (Inl e)
  then show ?thesis by (simp add: Backward_def axon_backward_def)
next
  case (Inr syns)
  obtain r where "backward_pipeline self req syns = Inr r" and "ret_tensors r = []"
    using backward_pipeline_returns by blast
  then show ?thesis
    using Inr by (simp add: Backward_def axon_backward_def response_message_def)
qed

theorem backward_returns_no_tensors_witness:
  "map_sum id msg_tensors (Backward demo_axon (demo_request [''x'', ''y'', ''bad'', ''zz''] [1, 2])) = Inr [] \<and>
   map_sum id msg_return_code (Backward demo_axon (demo_request [''x'', ''y'', ''bad'', ''zz''] [1, 2])) = Inr Success \<and>
   Backward demo_axon (demo_request [''x'', ''y''] [0, 2]) = Inl (ValueError ''Synapse type is unknown.'') \<and>
   deserialize_synapses demo_axon (synapses (demo_request [''x'', ''y''] [0, 2])) = Inl (ValueError ''Synapse type is unknown.'')"
proof -
  have a: "map_sum id msg_return_code (Backward demo_axon (demo_request [''x'', ''y'', ''bad'', ''zz''] [1, 2])) = Inr Success"
    by code_simp
  have b: "Backward demo_axon (demo_request [''x'', ''y''] [0, 2]) = Inl (ValueError ''Synapse type is unknown.'')"
    by code_simp
  show ?thesis
    using a b backward_returns_no_tensors [of demo_axon "demo_request [''x'', ''y'', ''bad'', ''zz''] [1, 2]"]
      backward_returns_no_tensors [of demo_axon "demo_request [''x'', ''y''] [0, 2]"]
    by (auto split: sum.splits)
qed

text \<open>
  C8, as the code has it. Of the backward calls whose descriptors all deserialize, one
  with exactly one tensor returns InvalidRequest, and one with at least two tensors, but
  not two per synapse, returns RequestShapeException; every outcome carries the code, and
  so do the request's descriptors; nothing is decoded: only the telemetry is called.
  (With no tensor at all the code is EmptyRequest; a descriptor that does not
  deserialize raises before the checks.)
\<close>

theorem backward_validation_rejected:
  fixes self :: "('w, 's, 'p, 'x) axon"
  assumes "deserialize_synapses self (synapses req) = Inr syns"
    and "length (tensors req) = 1 \<or> (2 \<le> length (tensors req) \<and> length (tensors req) \<noteq> 2 * length syns)"
  shows "\<exists>r. axon_backward self req = Inr r \<and> ret_tensors r = [] \<and>
            ret_code r = (if length (tensors req) = 1 then InvalidRequest else RequestShapeException) \<and>
            synapse_codes (ret_state r) = replicate (length syns) (ret_code r) \<and>
            map return_code (ret_synapses r) = replicate (length syns) (ret_code r) \<and>
            trace (ret_state r) = [Finalize]"
proof -
  have n: "length (synapses req) = length syns"
    using deserialize_synapses_length [OF assms(1)] by simp
  have "\<exists>r. validate_backward self req syns (init_backward self req syns) = Return r"
    using assms(2) by (auto simp: validate_backward_def return_failure_def Let_def)
  then obtain r where r: "validate_backward self req syns (init_backward self req syns) = Return r" ..
  then have "axon_backward self req = Inr r"
    using assms(1) by (simp add: axon_backward_def backward_pipeline_def backward_stages_def finish_def)
  moreover have "ret_tensors r = [] \<and>
      ret_code r = (if length (tensors req) = 1 then InvalidRequest else RequestShapeException) \<and>
      synapse_codes (ret_state r) = replicate (length syns) (ret_code r) \<and>
      map return_code (ret_synapses r) = replicate (length syns) (ret_code r) \<and>
      trace (ret_state r) = [Finalize]"
    using r assms(2) n
    by (auto simp: validate_backward_def finalize_codes_on_wire split: if_splits dest!: return_failure_fields)
  ultimately show ?thesis by blast
qed

theorem backward_validation_rejected_witness:
  "deserialize_synapses demo_axon (synapses (demo_request [''x''] [1, 2])) = Inr [1, 2] \<and>
   length (tensors (demo_request [''x''] [1, 2])) = 1 \<and>
   (\<exists>r. axon_backward demo_axon (demo_request [''x''] [1, 2]) = Inr r \<and> ret_tensors r = [] \<and>
      ret_code r = InvalidRequest \<and> synapse_codes (ret_state r) = [InvalidRequest, InvalidRequest] \<and>
      trace (ret_state r) = [Finalize]) \<and>
   deserialize_synapses demo_axon (synapses (demo_request [''x'', ''y'', ''z''] [1, 2])) = Inr [1, 2] \<and>
   2 \<le> length (tensors (demo_request [''x'', ''y'', ''z''] [1, 2])) \<and>
   length (tensors (demo_request [''x'', ''y'', ''z''] [1, 2])) \<noteq> 2 * length [1, 2 :: nat] \<and>
   (\<exists>r. axon_backward demo_axon (demo_request [''x'', ''y'', ''z''] [1, 2]) = Inr r \<and> ret_tensors r = [] \<and>
      ret_code r = RequestShapeException \<and>
      synapse_codes (ret_state r) = [RequestShapeException, RequestShapeException] \<and>
      trace (ret_state r) = [Finalize])"
proof -
  have h1: "deserialize_synapses demo_axon (synapses (demo_request [''x''] [1, 2])) = Inr [1, 2]"
    by (simp add: demo_defs)
  have l1: "length (tensors (demo_request [''x''] [1, 2])) = 1"
    by (simp add: demo_defs)
  have h2: "deserialize_synapses demo_axon (synapses (demo_request [''x'', ''y'', ''z''] [1, 2])) = Inr [1, 2]"
    by (simp add: demo_defs)
  have l2: "2 \<le> length (tensors (demo_request [''x'', ''y'', ''z''] [1, 2])) \<and>
      length (tensors (demo_request [''x'', ''y'', ''z''] [1, 2])) \<noteq> 2 * length [1, 2 :: nat]"
    by (simp add: demo_defs)
  show ?thesis
    using h1 l1 h2 l2 backward_validation_rejected [OF h1 disjI1, OF l1]
      backward_validation_rejected [OF h2 disjI2, OF l2]
    by (auto simp: numeral_2_eq_2)
qed

text \<open>
  The claim C8 as stated fails on two calls with fewer than two tensors: with no tensor the
  code is EmptyRequest, not InvalidRequest; and with one tensor and a descriptor that does
  not deserialize no code is returned, the exception of line 433 escapes.
\<close>

theorem backward_empty_is_not_invalid_counterexample:
  "length (tensors (demo_request [] [1, 2])) < 2 \<and>
   map_sum id ret_code (axon_backward demo_axon (demo_request [] [1, 2])) = Inr EmptyRequest \<and>
   map_sum id (\<lambda>r. synapse_codes (ret_state r)) (axon_backward demo_axon (demo_request [] [1, 2]))
     = Inr [EmptyRequest, EmptyRequest] \<and>
   EmptyRequest \<noteq> InvalidRequest \<and>
   length (tensors (demo_request [''x''] [0, 2])) < 2 \<and>
   axon_backward demo_axon (demo_request [''x''] [0, 2]) = Inl (ValueError ''Synapse type is unknown.'') \<and>
   Backward demo_axon (demo_request [''x''] [0, 2]) = Inl (ValueError ''Synapse type is unknown.'')"
  by code_simp

text \<open>
  C7, as the code has it. A forward call whose descriptors all deserialize, with at least
  one tensor, but not as many tensors as synapses, returns no tensors and the code
  RequestShapeException; every outcome carries that code, and so do the request's
  descriptors; no tensor is deserialized: after the initialisation only the telemetry is
  called. (With no tensor at all the code is EmptyRequest; a descriptor that does not
  deserialize raises before the checks.)
\<close>

theorem forward_length_mismatch_rejected:
  fixes self :: "('w, 's, 'p, 'x) axon"
  assumes "deserialize_synapses self (synapses req) = Inr syns"
    and "tensors req \<noteq> []" and "length (tensors req) \<noteq> length syns"
  shows "\<exists>r. axon_forward self req = Inr r \<and> ret_tensors r = [] \<and>
            ret_code r = RequestShapeException \<and>
            synapse_codes (ret_state r) = replicate (length syns) RequestShapeException \<and>
            synapse_messages (ret_state r) = replicate (length syns) ''Request length doesn't match synape length.'' \<and>
            map return_code (ret_synapses r) = replicate (length syns) RequestShapeException \<and>
            trace (ret_state r) = map SynapseEmpty [0..<length syns] @ [Finalize]"
proof -
  have n: "length (synapses req) = length syns"
    using deserialize_synapses_length [OF assms(1)] by simp
  have "\<exists>r. validate_forward self req syns (init_forward self req syns) = Return r"
    using assms(2,3) by (auto simp: validate_forward_def return_failure_def Let_def)
  then obtain r where r: "validate_forward self req syns (init_forward self req syns) = Return r" ..
  then have "axon_forward self req = Inr r"
    using assms(1) by (simp add: axon_forward_def forward_pipeline_def forward_stages_def finish_def)
  moreover have "ret_tensors r = [] \<and>
      ret_code r = RequestShapeException \<and>
      synapse_codes (ret_state r) = replicate (length syns) RequestShapeException \<and>
      synapse_messages (ret_state r) = replicate (length syns) ''Request length doesn't match synape length.'' \<and>
      map return_code (ret_synapses r) = replicate (length syns) RequestShapeException \<and>
      trace (ret_state r) = map SynapseEmpty [0..<length syns] @ [Finalize]"
    using r assms(2,3) n
    by (auto simp: validate_forward_def finalize_codes_on_wire split: if_splits dest!: return_failure_fields)
  ultimately show ?thesis by blast
qed

theorem forward_length_mismatch_rejected_witness:
  "deserialize_synapses demo_axon (synapses (demo_request [''x'', ''y''] [1, 2, 3])) = Inr [1, 2, 3] \<and>
   tensors (demo_request [''x'', ''y''] [1, 2, 3]) \<noteq> [] \<and>
   length (tensors (demo_request [''x'', ''y''] [1, 2, 3])) \<noteq> length [1, 2, 3 :: nat] \<and>
   (\<exists>r. axon_forward demo_axon (demo_request [''x'', ''y''] [1, 2, 3]) = Inr r \<and> ret_tensors r = [] \<and>
      ret_code r = RequestShapeException \<and>
      synapse_codes (ret_state r) = [RequestShapeException, RequestShapeException, RequestShapeException] \<and>
      trace (ret_state r) = [SynapseEmpty 0, SynapseEmpty 1, SynapseEmpty 2, Finalize])"
proof -
  have h: "deserialize_synapses demo_axon (synapses (demo_request [''x'', ''y''] [1, 2, 3])) = Inr [1, 2, 3]"
    by (simp add: demo_defs)
  have t: "tensors (demo_request [''x'', ''y''] [1, 2, 3]) \<noteq> []"
    by (simp add: demo_defs)
  have l: "length (tensors (demo_request [''x'', ''y''] [1, 2, 3])) \<noteq> length [1, 2, 3 :: nat]"
    by (simp add: demo_defs)
  show ?thesis
    using h t l forward_length_mismatch_rejected [OF h t l]
    by (auto simp: upt_rec numeral_3_eq_3 numeral_2_eq_2)
qed

text \<open>
  The claim C7 as stated fails on two calls whose tensor count differs from the synapse
  count: with no tensor the code is EmptyRequest, not RequestShapeException; and with one
  tensor and two descriptors, one of which does not deserialize, no code is returned, the
  exception of line 204 escapes.
\<close>

theorem forward_empty_is_not_shape_counterexample:
  "length (tensors (demo_request [] [1, 2])) \<noteq> length (synapses (demo_request [] [1, 2])) \<and>
   map_sum id ret_code (axon_forward demo_axon (demo_request [] [1, 2])) = Inr EmptyRequest \<and>
   map_sum id (\<lambda>r. synapse_codes (ret_state r)) (axon_forward demo_axon (demo_request [] [1, 2]))
     = Inr [EmptyRequest, EmptyRequest] \<and>
   EmptyRequest \<noteq> RequestShapeException \<and>
   length (tensors (demo_request [''x''] [0, 2])) \<noteq> length (synapses (demo_request [''x''] [0, 2])) \<and>
   axon_forward demo_axon (demo_request [''x''] [0, 2]) = Inl (ValueError ''Synapse type is unknown.'') \<and>
   Forward demo_axon (demo_request [''x''] [0, 2]) = Inl (ValueError ''Synapse type is unknown.'')"
  by code_simp

lemma run_Return:
  "run stages st = Return r \<Longrightarrow> \<exists>stage \<in> set stages. \<exists>st'. stage st' = Return r"
proof (induction stages arbitrary: st)
  case Nil
  then show ?case by simp
next
  case (Cons stage stages)
  then show ?case by (cases "stage st") (auto split: step.splits)
qed

lemma run_snoc_Continue:
  "run (stages @ [stage]) st = Continue st' \<Longrightarrow> \<exists>st0. stage st0 = Continue st'"
  by (auto simp: run_append split: step.splits)

lemma fold_set_return_time_codes [simp]:
  "synapse_codes (fold (set_return_time self) is st) = synapse_codes st"
  by (induction "is" arbitrary: st) (simp_all add: set_return_time_def clock_tick_def)

lemma finish_codes [simp]:
  "synapse_codes (ret_state (finish_forward self syns st)) = synapse_codes st"
  "synapse_codes (ret_state (finish_backward self syns st)) = synapse_codes st"
  "ret_code (finish_forward self syns st) = Success"
  "ret_code (finish_backward self syns st) = Success"
  by (simp_all add: finish_forward_def finish_backward_def Let_def)

lemma aggregate_return_failure:
  assumes "return_failure self syns code (fail_all self code msg syns st) = Return r" and "code \<noteq> Success"
  shows "(ret_code r = Success \<longleftrightarrow> Success \<in> set (synapse_codes (ret_state r))) \<and>
         (synapse_codes (ret_state r) \<noteq> [] \<longrightarrow> ret_code r = hd (synapse_codes (ret_state r)))"
  using assms by (auto dest!: return_failure_fields)

lemma aggregate_return_if_all_failed:
  assumes "return_if_all_failed self syns st = Return r"
  shows "(ret_code r = Success \<longleftrightarrow> Success \<in> set (synapse_codes (ret_state r))) \<and>
         (synapse_codes (ret_state r) \<noteq> [] \<longrightarrow> ret_code r = hd (synapse_codes (ret_state r)))"
proof -
  from assms have ns: "Success \<notin> set (synapse_codes st)" and ne: "synapse_codes st \<noteq> []"
    and r: "return_failure self syns (hd (synapse_codes st)) st = Return r"
    by (simp_all add: return_if_all_failed_Return)
  have "hd (synapse_codes st) \<in> set (synapse_codes st)" using ne by simp
  then have "hd (synapse_codes st) \<noteq> Success" using ns by metis
  then show ?thesis using ns return_failure_fields [OF r] by simp
qed

lemma forward_calls_failed_Return:
  assumes "forward_calls_failed self syns e st = Return r"
  shows "ret_tensors r = [] \<and>
         ret_code r = (case e of TimeoutError m \<Rightarrow> Timeout | _ \<Rightarrow> UnknownException) \<and>
         synapse_codes (ret_state r) = replicate (length syns) (ret_code r)"
  using assms
  by (cases e) (auto simp: forward_calls_failed_def split: if_splits dest!: return_failure_fields)

lemma aggregate_stage_forward:
  assumes "stage \<in> set (forward_stages self req syns)" and "stage st = Return r"
  shows "(ret_code r = Success \<longleftrightarrow> Success \<in> set (synapse_codes (ret_state r))) \<and>
         (synapse_codes (ret_state r) \<noteq> [] \<longrightarrow> ret_code r = hd (synapse_codes (ret_state r)))"
proof -
  consider "stage = validate_forward self req syns" | "stage = decode_forward self req syns"
    | "stage = forward_calls self req syns" | "stage = encode_forward self syns"
    using assms(1) by (auto simp: forward_stages_def)
  then show ?thesis
  proof cases
    case 1
    then show ?thesis
      using assms(2) by (auto simp: validate_forward_def split: if_splits dest!: return_failure_fields)
  next
    case 2
    then show ?thesis
      using assms(2) aggregate_return_if_all_failed unfolding decode_forward_def by blast
  next
    case 3
    then obtain e st' where f: "forward_calls_failed self syns e st' = Return r"
      using assms(2) by (auto simp: forward_calls_def split: sum.splits)
    show ?thesis
      using forward_calls_failed_Return [OF f] by (cases e) auto
  next
    case 4
    then show ?thesis
      using assms(2) aggregate_return_if_all_failed unfolding encode_forward_def by blast
  qed
qed

lemma aggregate_stage_backward:
  assumes "stage \<in> set (backward_stages self req syns)" and "stage st = Return r"
  shows "(ret_code r = Success \<longleftrightarrow> Success \<in> set (synapse_codes (ret_state r))) \<and>
         (synapse_codes (ret_state r) \<noteq> [] \<longrightarrow> ret_code r = hd (synapse_codes (ret_state r)))"
proof -
  consider "stage = validate_backward self req syns" | "stage = decode_backward self req syns"
    | "stage = backward_calls self req syns"
    using assms(1) by (auto simp: backward_stages_def)
  then show ?thesis
  proof cases
    case 1
    then show ?thesis
      using assms(2) by (auto simp: validate_backward_def split: if_splits dest!: return_failure_fields)
  next
    case 2
    then show ?thesis
      using assms(2) aggregate_return_if_all_failed unfolding decode_backward_def by blast
  next
    case 3
    show ?thesis
    proof (cases "backward_calls_try self req syns st")
      case (Inl a)
      then show ?thesis
        using 3 assms(2) backward_calls_failed_Return [of self syns "fst a" "snd a"]
        by (cases a; cases "fst a") (auto simp: backward_calls_def)
    next
      case (Inr st')
      then show ?thesis
        using 3 assms(2) aggregate_return_if_all_failed by (simp add: backward_calls_def)
    qed
  qed
qed

text \<open>
  C1. A call of \<^verbatim>\<open>_forward\<close> or \<^verbatim>\<open>_backward\<close> that returns: the overall code is Success
  exactly when some outcome has the code Success in the state of the return; and when no
  outcome is Success (and there is a first synapse), the overall code is the code of the
  first outcome.
\<close>

theorem overall_code_aggregate:
  fixes self :: "('w, 's, 'p, 'x) axon"
  assumes "axon_forward self req = Inr r \<or> axon_backward self req = Inr r"
  shows "(ret_code r = Success \<longleftrightarrow> Success \<in> set (synapse_codes (ret_state r))) \<and>
         (Success \<notin> set (synapse_codes (ret_state r)) \<and> synapse_codes (ret_state r) \<noteq> [] \<longrightarrow>
            ret_code r = hd (synapse_codes (ret_state r)))"
  using assms
proof
  assume "axon_forward self req = Inr r"
  then obtain syns where
    p: "finish (finish_forward self syns) (run (forward_stages self req syns) (init_forward self req syns)) = Inr r"
    by (auto simp: axon_forward_def forward_pipeline_def split: sum.splits)
  show ?thesis
  proof (cases "run (forward_stages self req syns) (init_forward self req syns)")
    case (Continue st)
    then have "run ([validate_forward self req syns, decode_forward self req syns, forward_calls self req syns]
        @ [encode_forward self syns]) (init_forward self req syns) = Continue st"
      by (simp add: forward_stages_def)
    then obtain st0 where "encode_forward self syns st0 = Continue st"
      using run_snoc_Continue by blast
    then have "Success \<in> set (synapse_codes st)"
      by (simp add: encode_forward_def return_if_all_failed_Continue)
    moreover have "r = finish_forward self syns st"
      using p Continue by (simp add: finish_def)
    ultimately show ?thesis by simp
  next
    case (Return r')
    then have "r' = r" using p by (simp add: finish_def)
    then show ?thesis
      using run_Return [OF Return] aggregate_stage_forward by blast
  next
    case (Raise e)
    then show ?thesis using p by (simp add: finish_def)
  qed
next
  assume "axon_backward self req = Inr r"
  then obtain syns where
    p: "finish (finish_backward self syns) (run (backward_stages self req syns) (init_backward self req syns)) = Inr r"
    by (auto simp: axon_backward_def backward_pipeline_def split: sum.splits)
  show ?thesis
  proof (cases "run (backward_stages self req syns) (init_backward self req syns)")
    case (Continue st)
    then have "run ([validate_backward self req syns, decode_backward self req syns]
        @ [backward_calls self req syns]) (init_backward self req syns) = Continue st"
      by (simp add: backward_stages_def)
    then obtain st0 where "backward_calls self req syns st0 = Continue st"
      using run_snoc_Continue by blast
    then have "Success \<in> set (synapse_codes st)"
      by (auto simp: backward_calls_def return_if_all_failed_Continue backward_calls_failed_def
          split: sum.splits prod.splits exn.splits)
    moreover have "r = finish_backward self syns st"
      using p Continue by (simp add: finish_def)
    ultimately show ?thesis by simp
  next
    case (Return r')
    then have "r' = r" using p by (simp add: finish_def)
    then show ?thesis
      using run_Return [OF Return] aggregate_stage_backward by blast
  next
    case (Raise e)
    then show ?thesis using p by (simp add: finish_def)
  qed
qed

theorem overall_code_aggregate_witness:
  "(case axon_forward demo_axon (demo_request [''bad'', ''junk''] [1, 2]) of
      Inl e \<Rightarrow> False
    | Inr r \<Rightarrow>
        synapse_codes (ret_state r) = [RequestShapeException, RequestDeserializationException] \<and>
        ret_code r = RequestShapeException \<and>
        (ret_code r = Success \<longleftrightarrow> Success \<in> set (synapse_codes (ret_state r))) \<and>
        (Success \<notin> set (synapse_codes (ret_state r)) \<and> synapse_codes (ret_state r) \<noteq> [] \<longrightarrow>
           ret_code r = hd (synapse_codes (ret_state r)))) \<and>
   (case axon_backward demo_axon (demo_request [''x'', ''y'', ''bad'', ''zz''] [1, 2]) of
      Inl e \<Rightarrow> False
    | Inr r \<Rightarrow>
        synapse_codes (ret_state r) = [Success, NotImplemented] \<and>
        ret_code r = Success \<and>
        (ret_code r = Success \<longleftrightarrow> Success \<in> set (synapse_codes (ret_state r))))"
proof -
  have "map_sum id (\<lambda>r. (synapse_codes (ret_state r), ret_code r))
          (axon_forward demo_axon (demo_request [''bad'', ''junk''] [1, 2]))
        = Inr ([RequestShapeException, RequestDeserializationException], RequestShapeException)"
    by code_simp
  then obtain r where r: "axon_forward demo_axon (demo_request [''bad'', ''junk''] [1, 2]) = Inr r"
    and c: "synapse_codes (ret_state r) = [RequestShapeException, RequestDeserializationException]"
      "ret_code r = RequestShapeException"
    by (cases "axon_forward demo_axon (demo_request [''bad'', ''junk''] [1, 2])") auto
  have "map_sum id (\<lambda>r. (synapse_codes (ret_state r), ret_code r))
          (axon_backward demo_axon (demo_request [''x'', ''y'', ''bad'', ''zz''] [1, 2]))
        = Inr ([Success, NotImplemented], Success)"
    by code_simp
  then obtain b where b: "axon_backward demo_axon (demo_request [''x'', ''y'', ''bad'', ''zz''] [1, 2]) = Inr b"
    and d: "synapse_codes (ret_state b) = [Success, NotImplemented]" "ret_code b = Success"
    by (cases "axon_backward demo_axon (demo_request [''x'', ''y'', ''bad'', ''zz''] [1, 2])") auto
  show ?thesis
    using r c b d overall_code_aggregate [OF disjI1, OF r] overall_code_aggregate [OF disjI2, OF b]
    by simp
qed

subsection \<open>The decode loops, outcome by outcome\<close>

lemma fail_one_fields [simp]:
  "synapse_codes (fail_one self index code msg st) = (synapse_codes st)[index := code]"
  "synapse_messages (fail_one self index code msg st) = (synapse_messages st)[index := msg]"
  "trace (fail_one self index code msg st) = trace st"
  by (simp_all add: fail_one_def clock_tick_def)

lemma decode_failed_fields:
  "\<exists>c m. c \<noteq> Success \<and> synapse_codes (decode_failed self index e st) = (synapse_codes st)[index := c] \<and>
          synapse_messages (decode_failed self index e st) = (synapse_messages st)[index := m]"
proof -
  let ?c = "case e of ValueError m \<Rightarrow> RequestShapeException | _ \<Rightarrow> RequestDeserializationException"
  let ?m = "case e of ValueError m \<Rightarrow> ''Input shape exception with error:'' @ str e
                    | _ \<Rightarrow> ''Input deserialization exception with error:'' @ str e"
  have "?c \<noteq> Success" by (cases e) simp_all
  moreover have "synapse_codes (decode_failed self index e st) = (synapse_codes st)[index := ?c]"
    by (cases e) (simp_all add: decode_failed_def)
  moreover have "synapse_messages (decode_failed self index e st) = (synapse_messages st)[index := ?m]"
    by (cases e) (simp_all add: decode_failed_def)
  ultimately show ?thesis by blast
qed

lemma decode_failed_trace [simp]: "trace (decode_failed self index e st) = trace st"
  by (cases e) (simp_all add: decode_failed_def)

lemma deserialize_forward_input_step:
  "if forward_input_decodes self req i x
   then synapse_codes (deserialize_forward_input self req (i, x) st) = synapse_codes st \<and>
        synapse_messages (deserialize_forward_input self req (i, x) st) = synapse_messages st
   else \<exists>c m. c \<noteq> Success \<and>
        synapse_codes (deserialize_forward_input self req (i, x) st) = (synapse_codes st)[i := c] \<and>
        synapse_messages (deserialize_forward_input self req (i, x) st) = (synapse_messages st)[i := m]"
proof (cases "py_index (tensors req) i")
  case (Inl e)
  then show ?thesis
    using decode_failed_fields [of self i e st]
    by (simp add: forward_input_decodes_def deserialize_forward_input_def)
next
  case t: (Inr t)
  show ?thesis
  proof (cases "deserialize_forward_request_tensor self x t")
    case (Inl e)
    then show ?thesis
      using t decode_failed_fields [of self i e "log_event (DeserializeForwardRequestTensor i) st"]
      by (simp add: forward_input_decodes_def deserialize_forward_input_def Let_def log_event_def)
  next
    case (Inr v)
    then show ?thesis
      using t by (simp add: forward_input_decodes_def deserialize_forward_input_def Let_def log_event_def)
  qed
qed

lemma deserialize_backward_input_step:
  "if backward_input_decodes self req n i x
   then synapse_codes (deserialize_backward_input self req n (i, x) st) = synapse_codes st \<and>
        synapse_messages (deserialize_backward_input self req n (i, x) st) = synapse_messages st
   else \<exists>c m. c \<noteq> Success \<and>
        synapse_codes (deserialize_backward_input self req n (i, x) st) = (synapse_codes st)[i := c] \<and>
        synapse_messages (deserialize_backward_input self req n (i, x) st) = (synapse_messages st)[i := m]"
proof (cases "py_index (tensors req) i")
  case (Inl e)
  then show ?thesis
    using decode_failed_fields [of self i e st]
    by (simp add: backward_input_decodes_def deserialize_backward_input_def)
next
  case t: (Inr t)
  show ?thesis
  proof (cases "deserialize_forward_request_tensor self x t")
    case (Inl e)
    then show ?thesis
      using t decode_failed_fields [of self i e "log_event (DeserializeForwardRequestTensor i) st"]
      by (simp add: backward_input_decodes_def deserialize_backward_input_def Let_def log_event_def)
  next
    case v: (Inr v)
    show ?thesis
    proof (cases "py_index (tensors req) (n + i)")
      case (Inl e)
      then show ?thesis
        using t v decode_failed_fields [of self i e
            "(log_event (DeserializeForwardRequestTensor i) st)\<lparr>deserialized_forward_tensors :=
               (deserialized_forward_tensors (log_event (DeserializeForwardRequestTensor i) st))[i := Some v]\<rparr>"]
        by (simp add: backward_input_decodes_def deserialize_backward_input_def Let_def log_event_def)
    next
      case g: (Inr g)
      show ?thesis
      proof (cases "deserialize_backward_request_gradient self x v g")
        case (Inl e)
        then show ?thesis
          using t v g decode_failed_fields [of self i e
            "log_event (DeserializeBackwardRequestGradient i)
               ((log_event (DeserializeForwardRequestTensor i) st)\<lparr>deserialized_forward_tensors :=
                 (deserialized_forward_tensors (log_event (DeserializeForwardRequestTensor i) st))[i := Some v]\<rparr>)"]
          by (simp add: backward_input_decodes_def deserialize_backward_input_def Let_def log_event_def)
      next
        case (Inr dy)
        then show ?thesis
          using t v g
          by (simp add: backward_input_decodes_def deserialize_backward_input_def Let_def log_event_def)
      qed
    qed
  qed
qed

text \<open>
  A loop over \<^verbatim>\<open>enumerate\<close> whose round either leaves codes and messages alone (when \<open>ok\<close>)
  or overwrites those of its own index with a failure.
\<close>

lemma fold_enumerate_length:
  fixes f :: "nat \<times> 's \<Rightarrow> ('w, 'p, 'x) call_state \<Rightarrow> ('w, 'p, 'x) call_state"
  assumes step: "\<And>i x st. if ok i x
      then synapse_codes (f (i, x) st) = synapse_codes st \<and> synapse_messages (f (i, x) st) = synapse_messages st
      else \<exists>c m. c \<noteq> Success \<and> synapse_codes (f (i, x) st) = (synapse_codes st)[i := c] \<and>
             synapse_messages (f (i, x) st) = (synapse_messages st)[i := m]"
  shows "length (synapse_codes (fold f (enumerate k xs) st)) = length (synapse_codes st)"
proof (induction xs arbitrary: k st)
  case Nil
  then show ?case by simp
next
  case (Cons x xs)
  have "length (synapse_codes (f (k, x) st)) = length (synapse_codes st)"
    using step [of k x st] by (auto split: if_splits)
  then show ?case using Cons.IH [of "Suc k" "f (k, x) st"] by simp
qed

lemma fold_enumerate_outside:
  fixes f :: "nat \<times> 's \<Rightarrow> ('w, 'p, 'x) call_state \<Rightarrow> ('w, 'p, 'x) call_state"
  assumes step: "\<And>i x st. if ok i x
      then synapse_codes (f (i, x) st) = synapse_codes st \<and> synapse_messages (f (i, x) st) = synapse_messages st
      else \<exists>c m. c \<noteq> Success \<and> synapse_codes (f (i, x) st) = (synapse_codes st)[i := c] \<and>
             synapse_messages (f (i, x) st) = (synapse_messages st)[i := m]"
    and "j < k \<or> k + length xs \<le> j"
  shows "synapse_codes (fold f (enumerate k xs) st) ! j = synapse_codes st ! j \<and>
         synapse_messages (fold f (enumerate k xs) st) ! j = synapse_messages st ! j"
  using assms(2)
proof (induction xs arbitrary: k st)
  case Nil
  then show ?case by simp
next
  case (Cons x xs)
  have jk: "j \<noteq> k" using Cons.prems by auto
  have a: "synapse_codes (f (k, x) st) ! j = synapse_codes st ! j \<and>
           synapse_messages (f (k, x) st) ! j = synapse_messages st ! j"
    using step [of k x st] jk by (auto split: if_splits)
  have "j < Suc k \<or> Suc k + length xs \<le> j" using Cons.prems by auto
  then show ?case using Cons.IH [of "Suc k" "f (k, x) st"] a by simp
qed

lemma fold_enumerate_inside:
  fixes f :: "nat \<times> 's \<Rightarrow> ('w, 'p, 'x) call_state \<Rightarrow> ('w, 'p, 'x) call_state"
  assumes step: "\<And>i x st. if ok i x
      then synapse_codes (f (i, x) st) = synapse_codes st \<and> synapse_messages (f (i, x) st) = synapse_messages st
      else \<exists>c m. c \<noteq> Success \<and> synapse_codes (f (i, x) st) = (synapse_codes st)[i := c] \<and>
             synapse_messages (f (i, x) st) = (synapse_messages st)[i := m]"
    and "k + length xs \<le> length (synapse_codes st)" and "j < length xs"
  shows "if ok (k + j) (xs ! j)
         then synapse_codes (fold f (enumerate k xs) st) ! (k + j) = synapse_codes st ! (k + j) \<and>
              synapse_messages (fold f (enumerate k xs) st) ! (k + j) = synapse_messages st ! (k + j)
         else synapse_codes (fold f (enumerate k xs) st) ! (k + j) \<noteq> Success"
  using assms(2,3)
proof (induction xs arbitrary: k st j)
  case Nil
  then show ?case by simp
next
  case (Cons x xs)
  have len: "length (synapse_codes (f (k, x) st)) = length (synapse_codes st)"
    using step [of k x st] by (auto split: if_splits)
  show ?case
  proof (cases j)
    case 0
    have out: "synapse_codes (fold f (enumerate (Suc k) xs) (f (k, x) st)) ! k = synapse_codes (f (k, x) st) ! k \<and>
               synapse_messages (fold f (enumerate (Suc k) xs) (f (k, x) st)) ! k = synapse_messages (f (k, x) st) ! k"
      using fold_enumerate_outside [where ok = ok and f = f, OF step, of k "Suc k" xs "f (k, x) st"] by simp
    have k: "k < length (synapse_codes st)" using Cons.prems by simp
    show ?thesis
      using 0 out step [of k x st] k by (auto split: if_splits)
  next
    case (Suc j')
    have 1: "Suc k + length xs \<le> length (synapse_codes (f (k, x) st))" using Cons.prems len by simp
    have 2: "j' < length xs" using Cons.prems Suc by simp
    have ne: "Suc k + j' \<noteq> k" by simp
    have a: "synapse_codes (f (k, x) st) ! (Suc k + j') = synapse_codes st ! (Suc k + j') \<and>
             synapse_messages (f (k, x) st) ! (Suc k + j') = synapse_messages st ! (Suc k + j')"
      using step [of k x st] ne by (auto split: if_splits simp del: add_Suc)
    show ?thesis
      using Cons.IH [OF 1 2] a Suc by (auto split: if_splits)
  qed
qed

subsection \<open>What the decode loops call\<close>

lemma fold_trace_subset:
  assumes "\<And>x st. set (trace (f x st)) \<subseteq> set (trace st) \<union> E"
  shows "set (trace (fold f xs st)) \<subseteq> set (trace st) \<union> E"
proof (induction xs arbitrary: st)
  case Nil
  then show ?case by simp
next
  case (Cons x xs)
  show ?case using Cons.IH [of "f x st"] assms [of x st] by auto
qed

lemma deserialize_forward_input_trace:
  "set (trace (deserialize_forward_input self req ix st)) \<subseteq> set (trace st) \<union> decode_events"
  by (cases ix)
     (auto simp: deserialize_forward_input_def Let_def log_event_def decode_events_def split: sum.splits)

lemma deserialize_backward_input_trace:
  "set (trace (deserialize_backward_input self req n ix st)) \<subseteq> set (trace st) \<union> decode_events"
  by (cases ix)
     (auto simp: deserialize_backward_input_def Let_def log_event_def decode_events_def split: sum.splits)

lemma decode_forward_loop_trace:
  "set (trace (decode_forward_loop self req syns st)) \<subseteq> set (trace st) \<union> decode_events"
  using fold_trace_subset [where f = "deserialize_forward_input self req" and E = decode_events,
      OF deserialize_forward_input_trace,
      of "enumerate 0 syns" "st\<lparr>deserialized_forward_tensors := map (\<lambda>_. None) syns\<rparr>"]
  by (simp add: decode_forward_loop_def)

lemma decode_backward_loop_trace:
  "set (trace (decode_backward_loop self req syns st)) \<subseteq> set (trace st) \<union> decode_events"
  using fold_trace_subset [where f = "deserialize_backward_input self req (length syns)" and E = decode_events,
      OF deserialize_backward_input_trace, of "enumerate 0 syns" st]
  by (simp add: decode_backward_loop_def)

lemma decode_events_not_compute: "decode_events \<inter> compute_events = {}"
  by (auto simp: decode_events_def compute_events_def)

lemma decode_forward_loop_codes:
  assumes "length (synapse_codes st) = length syns"
  shows "length (synapse_codes (decode_forward_loop self req syns st)) = length syns"
    and "j < length syns \<Longrightarrow>
         (if forward_input_decodes self req j (syns ! j)
          then synapse_codes (decode_forward_loop self req syns st) ! j = synapse_codes st ! j \<and>
               synapse_messages (decode_forward_loop self req syns st) ! j = synapse_messages st ! j
          else synapse_codes (decode_forward_loop self req syns st) ! j \<noteq> Success)"
proof -
  let ?st = "st\<lparr>deserialized_forward_tensors := map (\<lambda>_. None) syns\<rparr>"
  show "length (synapse_codes (decode_forward_loop self req syns st)) = length syns"
    using fold_enumerate_length [where f = "deserialize_forward_input self req"
        and ok = "forward_input_decodes self req", OF deserialize_forward_input_step, of 0 syns ?st] assms
    by (simp add: decode_forward_loop_def)
  show "if forward_input_decodes self req j (syns ! j)
          then synapse_codes (decode_forward_loop self req syns st) ! j = synapse_codes st ! j \<and>
               synapse_messages (decode_forward_loop self req syns st) ! j = synapse_messages st ! j
          else synapse_codes (decode_forward_loop self req syns st) ! j \<noteq> Success"
    if "j < length syns"
    using fold_enumerate_inside [where f = "deserialize_forward_input self req"
        and ok = "forward_input_decodes self req", OF deserialize_forward_input_step, of 0 syns ?st j] assms that
    by (auto simp: decode_forward_loop_def split: if_splits)
qed

lemma decode_backward_loop_codes:
  assumes "length (synapse_codes st) = length syns"
  shows "length (synapse_codes (decode_backward_loop self req syns st)) = length syns"
    and "j < length syns \<Longrightarrow>
         (if backward_input_decodes self req (length syns) j (syns ! j)
          then synapse_codes (decode_backward_loop self req syns st) ! j = synapse_codes st ! j \<and>
               synapse_messages (decode_backward_loop self req syns st) ! j = synapse_messages st ! j
          else synapse_codes (decode_backward_loop self req syns st) ! j \<noteq> Success)"
proof -
  show "length (synapse_codes (decode_backward_loop self req syns st)) = length syns"
    using fold_enumerate_length [where f = "deserialize_backward_input self req (length syns)"
        and ok = "backward_input_decodes self req (length syns)", OF deserialize_backward_input_step, of 0 syns st] assms
    by (simp add: decode_backward_loop_def)
  show "if backward_input_decodes self req (length syns) j (syns ! j)
          then synapse_codes (decode_backward_loop self req syns st) ! j = synapse_codes st ! j \<and>
               synapse_messages (decode_backward_loop self req syns st) ! j = synapse_messages st ! j
          else synapse_codes (decode_backward_loop self req syns st) ! j \<noteq> Success"
    if "j < length syns"
    using fold_enumerate_inside [where f = "deserialize_backward_input self req (length syns)"
        and ok = "backward_input_decodes self req (length syns)", OF deserialize_backward_input_step, of 0 syns st j] assms that
    by (auto simp: decode_backward_loop_def split: if_splits)
qed

lemma all_failed_return:
  assumes "length (synapse_codes st) = length syns" and "syns \<noteq> []"
    and "\<And>j. j < length syns \<Longrightarrow> synapse_codes st ! j \<noteq> Success"
  shows "\<exists>r. return_if_all_failed self syns st = Return r \<and> ret_tensors r = [] \<and>
           ret_code r = hd (synapse_codes st) \<and> ret_state r = finalize_codes_stats_and_logs self syns st"
proof -
  have ns: "Success \<notin> set (synapse_codes st)"
    using assms(1,3) by (auto simp: in_set_conv_nth)
  have ne: "synapse_codes st \<noteq> []" using assms(1,2) by auto
  obtain r where r: "return_failure self syns (hd (synapse_codes st)) st = Return r"
    using return_failure_is_Return by blast
  then have "return_if_all_failed self syns st = Return r"
    using ns ne by (simp add: return_if_all_failed_Return)
  then show ?thesis using return_failure_fields [OF r] by simp
qed

text \<open>The calls of the decode loops, in order, on a request that passed the validation.\<close>

lemma fold_trace_exact:
  assumes "\<And>x st. x \<in> set xs \<Longrightarrow> trace (f x st) = trace st @ g x"
  shows "trace (fold f xs st) = trace st @ concat (map g xs)"
  using assms
proof (induction xs arbitrary: st)
  case Nil
  then show ?case by simp
next
  case (Cons x xs)
  have "trace (fold f xs (f x st)) = trace (f x st) @ concat (map g xs)"
    using Cons.IH [of "f x st"] Cons.prems by simp
  then show ?case using Cons.prems [of x st] by simp
qed

lemma deserialize_forward_input_calls:
  assumes "i < length (tensors req)"
  shows "trace (deserialize_forward_input self req (i, x) st) = trace st @ [DeserializeForwardRequestTensor i]"
  using assms
  by (simp add: deserialize_forward_input_def py_index_def Let_def log_event_def split: sum.splits)

lemma deserialize_backward_input_calls:
  assumes "n + i < length (tensors req)"
  shows "trace (deserialize_backward_input self req n (i, x) st) = trace st @ backward_decode_calls self req (i, x)"
  using assms
  by (simp add: deserialize_backward_input_def backward_decode_calls_def forward_input_decodes_def
        py_index_def Let_def log_event_def split: sum.splits)

lemma decode_forward_loop_calls:
  fixes self :: "('w, 's, 'p, 'x) axon"
  assumes "length syns \<le> length (tensors req)"
  shows "trace (decode_forward_loop self req syns st) =
         trace st @ map DeserializeForwardRequestTensor [0..<length syns]"
proof -
  let ?g = "\<lambda>ix :: nat \<times> 's. [DeserializeForwardRequestTensor (fst ix)]"
  have step: "trace (deserialize_forward_input self req ix st') = trace st' @ ?g ix"
    if "ix \<in> set (enumerate 0 syns)" for ix st'
  proof -
    obtain i x where ix: "ix = (i, x)" by (cases ix)
    then have "i < length syns" using that by (simp add: in_set_enumerate_eq)
    then show ?thesis using ix assms deserialize_forward_input_calls [of i req self x st'] by simp
  qed
  have "map (\<lambda>ix :: nat \<times> 's. DeserializeForwardRequestTensor (fst ix)) (enumerate 0 syns) =
        map DeserializeForwardRequestTensor [0..<length syns]"
    by (rule nth_equalityI) (simp_all add: nth_enumerate_eq)
  then have c: "concat (map ?g (enumerate 0 syns)) = map DeserializeForwardRequestTensor [0..<length syns]"
    by (simp add: concat_map_singleton)
  show ?thesis
    using fold_trace_exact [where f = "deserialize_forward_input self req" and g = ?g
        and xs = "enumerate 0 syns" and st = "st\<lparr>deserialized_forward_tensors := map (\<lambda>_. None) syns\<rparr>", OF step]
    unfolding c by (simp add: decode_forward_loop_def)
qed

lemma decode_backward_loop_calls:
  assumes "2 * length syns \<le> length (tensors req)"
  shows "trace (decode_backward_loop self req syns st) =
         trace st @ concat (map (backward_decode_calls self req) (enumerate 0 syns))"
proof -
  have step: "trace (deserialize_backward_input self req (length syns) ix st') =
              trace st' @ backward_decode_calls self req ix"
    if "ix \<in> set (enumerate 0 syns)" for ix st'
  proof -
    obtain i x where ix: "ix = (i, x)" by (cases ix)
    then have "i < length syns" using that by (simp add: in_set_enumerate_eq)
    then have "length syns + i < length (tensors req)" using assms by simp
    then show ?thesis using ix deserialize_backward_input_calls [of "length syns" i req self x st'] by simp
  qed
  show ?thesis
    using fold_trace_exact [where f = "deserialize_backward_input self req (length syns)"
        and g = "backward_decode_calls self req" and xs = "enumerate 0 syns" and st = st, OF step]
    by (simp add: decode_backward_loop_def)
qed

text \<open>
  C5. A call that passes the validation and in which the decode round of every synapse
  raises: the function returns at the check after the decode loop, with no tensors and
  the first outcome's code as the overall code; no outcome is Success; and the log holds
  no call of the compute stage (priority function, pool, future, callback), in
  \<^verbatim>\<open>_forward\<close> and in \<^verbatim>\<open>_backward\<close>. The return is immediate: the log at the return is
  that of the decode loop followed by the telemetry and nothing else. In \<^verbatim>\<open>_forward\<close> it
  is the empty responses built at the start, one tensor deserialization per synapse, and
  the telemetry; in \<^verbatim>\<open>_backward\<close> it is, per synapse, the deserialization of the forward
  tensor and, when that went through, of the gradient, and then the telemetry.
\<close>

theorem all_decodes_fail_short_circuit:
  fixes self :: "('w, 's, 'p, 'x) axon"
  assumes "deserialize_synapses self (synapses req) = Inr syns"
  shows "(tensors req \<noteq> [] \<and> length (tensors req) = length syns \<and>
          (\<forall>i < length syns. \<not> forward_input_decodes self req i (syns ! i)) \<longrightarrow>
            (\<exists>r. axon_forward self req = Inr r \<and> ret_tensors r = [] \<and>
                 ret_code r = hd (synapse_codes (ret_state r)) \<and>
                 Success \<notin> set (synapse_codes (ret_state r)) \<and>
                 set (trace (ret_state r)) \<inter> compute_events = {} \<and>
                 trace (ret_state r) =
                   map SynapseEmpty [0..<length syns] @
                   map DeserializeForwardRequestTensor [0..<length syns] @ [Finalize])) \<and>
         (2 \<le> length (tensors req) \<and> length (tensors req) = 2 * length syns \<and>
          (\<forall>i < length syns. \<not> backward_input_decodes self req (length syns) i (syns ! i)) \<longrightarrow>
            (\<exists>r. axon_backward self req = Inr r \<and> ret_tensors r = [] \<and>
                 ret_code r = hd (synapse_codes (ret_state r)) \<and>
                 Success \<notin> set (synapse_codes (ret_state r)) \<and>
                 set (trace (ret_state r)) \<inter> compute_events = {} \<and>
                 trace (ret_state r) =
                   concat (map (backward_decode_calls self req) (enumerate 0 syns)) @ [Finalize]))"
proof (intro conjI impI)
  assume a: "tensors req \<noteq> [] \<and> length (tensors req) = length syns \<and>
          (\<forall>i < length syns. \<not> forward_input_decodes self req i (syns ! i))"
  let ?st0 = "init_forward self req syns"
  let ?st1 = "decode_forward_loop self req syns ?st0"
  have ne: "syns \<noteq> []" using a by auto
  have l0: "length (synapse_codes ?st0) = length syns" by (simp add: init_forward_def)
  have l1: "length (synapse_codes ?st1) = length syns"
    using decode_forward_loop_codes(1) [OF l0] .
  have f: "synapse_codes ?st1 ! j \<noteq> Success" if "j < length syns" for j
    using decode_forward_loop_codes(2) [OF l0 that, of self req] a that by simp
  obtain r where r: "return_if_all_failed self syns ?st1 = Return r" "ret_tensors r = []"
    "ret_code r = hd (synapse_codes ?st1)" "ret_state r = finalize_codes_stats_and_logs self syns ?st1"
    using all_failed_return [OF l1 ne f] by blast
  have v: "validate_forward self req syns ?st0 = Continue ?st0"
    using a by (simp add: validate_forward_Continue)
  have p: "axon_forward self req = Inr r"
    using assms v r(1)
    by (simp add: axon_forward_def forward_pipeline_def forward_stages_def decode_forward_def finish_def)
  have ns: "Success \<notin> set (synapse_codes ?st1)"
    using l1 f by (auto simp: in_set_conv_nth)
  have t: "set (trace ?st1) \<inter> compute_events = {}"
    using decode_forward_loop_trace [of self req syns ?st0] decode_events_not_compute
    by (auto simp: compute_events_def)
  have "trace ?st1 = trace ?st0 @ map DeserializeForwardRequestTensor [0..<length syns]"
    using a decode_forward_loop_calls [of syns req self ?st0] by simp
  then have x: "trace (ret_state r) =
      map SynapseEmpty [0..<length syns] @ map DeserializeForwardRequestTensor [0..<length syns] @ [Finalize]"
    using r(4) by (simp add: init_forward_def)
  show "\<exists>r. axon_forward self req = Inr r \<and> ret_tensors r = [] \<and>
                 ret_code r = hd (synapse_codes (ret_state r)) \<and>
                 Success \<notin> set (synapse_codes (ret_state r)) \<and>
                 set (trace (ret_state r)) \<inter> compute_events = {} \<and>
                 trace (ret_state r) =
                   map SynapseEmpty [0..<length syns] @
                   map DeserializeForwardRequestTensor [0..<length syns] @ [Finalize]"
  proof (intro exI conjI)
    show "axon_forward self req = Inr r" by (rule p)
    show "ret_tensors r = []" by (rule r(2))
    show "ret_code r = hd (synapse_codes (ret_state r))" using r(3,4) by simp
    show "Success \<notin> set (synapse_codes (ret_state r))" using ns r(4) by simp
    show "set (trace (ret_state r)) \<inter> compute_events = {}" using t r(4) by (auto simp: compute_events_def)
    show "trace (ret_state r) =
      map SynapseEmpty [0..<length syns] @ map DeserializeForwardRequestTensor [0..<length syns] @ [Finalize]"
      by (rule x)
  qed
next
  assume a: "2 \<le> length (tensors req) \<and> length (tensors req) = 2 * length syns \<and>
          (\<forall>i < length syns. \<not> backward_input_decodes self req (length syns) i (syns ! i))"
  let ?st0 = "init_backward self req syns"
  let ?st1 = "decode_backward_loop self req syns ?st0"
  have ne: "syns \<noteq> []" using a by auto
  have l0: "length (synapse_codes ?st0) = length syns" by (simp add: init_backward_def)
  have l1: "length (synapse_codes ?st1) = length syns"
    using decode_backward_loop_codes(1) [OF l0] .
  have f: "synapse_codes ?st1 ! j \<noteq> Success" if "j < length syns" for j
    using decode_backward_loop_codes(2) [OF l0 that, of self req] a that by simp
  obtain r where r: "return_if_all_failed self syns ?st1 = Return r" "ret_tensors r = []"
    "ret_code r = hd (synapse_codes ?st1)" "ret_state r = finalize_codes_stats_and_logs self syns ?st1"
    using all_failed_return [OF l1 ne f] by blast
  have v: "validate_backward self req syns ?st0 = Continue ?st0"
    using a by (simp add: validate_backward_Continue)
  have p: "axon_backward self req = Inr r"
    using assms v r(1)
    by (simp add: axon_backward_def backward_pipeline_def backward_stages_def decode_backward_def finish_def)
  have ns: "Success \<notin> set (synapse_codes ?st1)"
    using l1 f by (auto simp: in_set_conv_nth)
  have t: "set (trace ?st1) \<inter> compute_events = {}"
    using decode_backward_loop_trace [of self req syns ?st0] decode_events_not_compute
    by (auto simp: compute_events_def)
  have "trace ?st1 = trace ?st0 @ concat (map (backward_decode_calls self req) (enumerate 0 syns))"
    using a decode_backward_loop_calls [of syns req self ?st0] by simp
  then have x: "trace (ret_state r) = concat (map (backward_decode_calls self req) (enumerate 0 syns)) @ [Finalize]"
    using r(4) by (simp add: init_backward_def)
  show "\<exists>r. axon_backward self req = Inr r \<and> ret_tensors r = [] \<and>
                 ret_code r = hd (synapse_codes (ret_state r)) \<and>
                 Success \<notin> set (synapse_codes (ret_state r)) \<and>
                 set (trace (ret_state r)) \<inter> compute_events = {} \<and>
                 trace (ret_state r) =
                   concat (map (backward_decode_calls self req) (enumerate 0 syns)) @ [Finalize]"
  proof (intro exI conjI)
    show "axon_backward self req = Inr r" by (rule p)
    show "ret_tensors r = []" by (rule r(2))
    show "ret_code r = hd (synapse_codes (ret_state r))" using r(3,4) by simp
    show "Success \<notin> set (synapse_codes (ret_state r))" using ns r(4) by simp
    show "set (trace (ret_state r)) \<inter> compute_events = {}" using t r(4) by (auto simp: compute_events_def)
    show "trace (ret_state r) = concat (map (backward_decode_calls self req) (enumerate 0 syns)) @ [Finalize]"
      by (rule x)
  qed
qed

theorem all_decodes_fail_short_circuit_witness:
  "deserialize_synapses demo_axon (synapses (demo_request [''bad'', ''junk''] [1, 2])) = Inr [1, 2] \<and>
   tensors (demo_request [''bad'', ''junk''] [1, 2]) \<noteq> [] \<and>
   length (tensors (demo_request [''bad'', ''junk''] [1, 2])) = length [1, 2 :: nat] \<and>
   \<not> forward_input_decodes demo_axon (demo_request [''bad'', ''junk''] [1, 2]) 0 1 \<and>
   \<not> forward_input_decodes demo_axon (demo_request [''bad'', ''junk''] [1, 2]) 1 2 \<and>
   (\<exists>r. axon_forward demo_axon (demo_request [''bad'', ''junk''] [1, 2]) = Inr r \<and> ret_tensors r = [] \<and>
        ret_code r = hd (synapse_codes (ret_state r)) \<and>
        Success \<notin> set (synapse_codes (ret_state r)) \<and>
        set (trace (ret_state r)) \<inter> compute_events = {} \<and>
        trace (ret_state r) =
          [SynapseEmpty 0, SynapseEmpty 1, DeserializeForwardRequestTensor 0,
           DeserializeForwardRequestTensor 1, Finalize]) \<and>
   deserialize_synapses demo_axon (synapses (demo_request [''x'', ''bad'', ''junk'', ''y''] [1, 2])) = Inr [1, 2] \<and>
   2 \<le> length (tensors (demo_request [''x'', ''bad'', ''junk'', ''y''] [1, 2])) \<and>
   length (tensors (demo_request [''x'', ''bad'', ''junk'', ''y''] [1, 2])) = 2 * length [1, 2 :: nat] \<and>
   \<not> backward_input_decodes demo_axon (demo_request [''x'', ''bad'', ''junk'', ''y''] [1, 2]) 2 0 1 \<and>
   \<not> backward_input_decodes demo_axon (demo_request [''x'', ''bad'', ''junk'', ''y''] [1, 2]) 2 1 2 \<and>
   (\<exists>r. axon_backward demo_axon (demo_request [''x'', ''bad'', ''junk'', ''y''] [1, 2]) = Inr r \<and> ret_tensors r = [] \<and>
        ret_code r = hd (synapse_codes (ret_state r)) \<and>
        Success \<notin> set (synapse_codes (ret_state r)) \<and>
        set (trace (ret_state r)) \<inter> compute_events = {} \<and>
        trace (ret_state r) =
          [DeserializeForwardRequestTensor 0, DeserializeBackwardRequestGradient 0,
           DeserializeForwardRequestTensor 1, Finalize])"
proof -
  define req1 where "req1 = demo_request [''bad'', ''junk''] [1, 2]"
  define req2 where "req2 = demo_request [''x'', ''bad'', ''junk'', ''y''] [1, 2]"
  have h1: "deserialize_synapses demo_axon (synapses req1) = Inr [1, 2]"
    by (simp add: demo_defs req1_def)
  have v1: "tensors req1 \<noteq> [] \<and> length (tensors req1) = length [1, 2 :: nat]"
    by (simp add: demo_defs req1_def)
  have e1: "\<not> forward_input_decodes demo_axon req1 0 1"
    "\<not> forward_input_decodes demo_axon req1 1 2"
    by (simp_all add: demo_defs req1_def forward_input_decodes_def py_index_def)
  have d1: "\<forall>i < length [1, 2 :: nat]. \<not> forward_input_decodes demo_axon req1 i ([1, 2] ! i)"
    using e1 by (auto simp: less_Suc_eq)
  have h2: "deserialize_synapses demo_axon (synapses req2) = Inr [1, 2]"
    by (simp add: demo_defs req2_def)
  have v2: "2 \<le> length (tensors req2) \<and> length (tensors req2) = 2 * length [1, 2 :: nat]"
    by (simp add: demo_defs req2_def)
  have e2: "\<not> backward_input_decodes demo_axon req2 2 0 1"
    "\<not> backward_input_decodes demo_axon req2 2 1 2"
    by (simp_all add: demo_defs req2_def backward_input_decodes_def py_index_def)
  have d2: "\<forall>i < length [1, 2 :: nat].
      \<not> backward_input_decodes demo_axon req2 (length [1, 2 :: nat]) i ([1, 2] ! i)"
    by (auto simp: demo_defs req2_def backward_input_decodes_def py_index_def less_Suc_eq)
  have t1: "map SynapseEmpty [0..<length [1, 2 :: nat]] @
      map DeserializeForwardRequestTensor [0..<length [1, 2 :: nat]] @ [Finalize] =
      [SynapseEmpty 0, SynapseEmpty 1, DeserializeForwardRequestTensor 0,
       DeserializeForwardRequestTensor 1, Finalize]"
    by (simp add: upt_rec)
  have t2: "concat (map (backward_decode_calls demo_axon req2) (enumerate 0 [1, 2 :: nat])) @ [Finalize] =
      [DeserializeForwardRequestTensor 0, DeserializeBackwardRequestGradient 0,
       DeserializeForwardRequestTensor 1, Finalize]"
    by (simp add: demo_defs req2_def backward_decode_calls_def forward_input_decodes_def py_index_def)
  note c1 = all_decodes_fail_short_circuit [OF h1, THEN conjunct1, rule_format, OF conjI [OF conjunct1 [OF v1] conjI [OF conjunct2 [OF v1] d1]]]
  note c2 = all_decodes_fail_short_circuit [OF h2, THEN conjunct2, rule_format, OF conjI [OF conjunct1 [OF v2] conjI [OF conjunct2 [OF v2] d2]]]
  show ?thesis
    unfolding req1_def [symmetric] req2_def [symmetric]
    using h1 v1 e1 h2 v2 e2 c1 [unfolded t1] c2 [unfolded t2]
    by blast
qed

subsection \<open>The backward compute stage with a priority function\<close>

lemma fold_set_return_time_fields [simp]:
  "synapse_messages (fold (set_return_time self) is st) = synapse_messages st"
  "trace (fold (set_return_time self) is st) = trace st"
  by (induction "is" arbitrary: st) (simp_all add: set_return_time_def clock_tick_def)

lemma finalize_more_fields [simp]:
  "deserialized_forward_tensors (finalize_codes_stats_and_logs self syns st) = deserialized_forward_tensors st"
  "deserialized_forward_gradients (finalize_codes_stats_and_logs self syns st) = deserialized_forward_gradients st"
  by (simp_all add: finalize_codes_stats_and_logs_def Let_def clock_tick_def)

text \<open>
  C10, as the code has it. A backward call with a priority function that passes the
  validation, in which some synapse decodes and in which neither the priority function nor
  the submission to the pool raises: the function returns Success and no tensors; every
  synapse that decoded has the code Success and the message Success, every other one
  keeps the failure of its decode round; the callback is handed to the pool and is not
  called by the pipeline, and no future is waited for.
\<close>

theorem backward_priority_mode_success:
  fixes self :: "('w, 's, 'p, 'x) axon"
  assumes "deserialize_synapses self (synapses req) = Inr syns"
    and "2 \<le> length (tensors req)" and "length (tensors req) = 2 * length syns"
    and "i < length syns" and "backward_input_decodes self req (length syns) i (syns ! i)"
    and "st1 = decode_backward_loop self req syns (init_backward self req syns)"
    and "priority self = Some priority_fn"
    and "priority_fn (hotkey req) (deserialized_forward_tensors st1) BACKWARD = Inr p"
    and "\<not> isl (priority_threadpool_submit self
            (\<lambda>_. backward_callback self (deserialized_forward_tensors st1) (deserialized_forward_gradients st1) syns) p)"
  shows "\<exists>r. axon_backward self req = Inr r \<and> ret_code r = Success \<and> ret_tensors r = [] \<and>
           (\<forall>j < length syns. backward_input_decodes self req (length syns) j (syns ! j) \<longrightarrow>
              synapse_codes (ret_state r) ! j = Success \<and> synapse_messages (ret_state r) ! j = ''Success'') \<and>
           (\<forall>j < length syns. \<not> backward_input_decodes self req (length syns) j (syns ! j) \<longrightarrow>
              synapse_codes (ret_state r) ! j \<noteq> Success) \<and>
           synapse_codes (ret_state r) = synapse_codes st1 \<and>
           synapse_messages (ret_state r) = synapse_messages st1 \<and>
           trace (ret_state r) = trace st1 @ [Finalize, Priority, Submit, Finalize] \<and>
           set (trace st1) \<subseteq> decode_events"
proof -
  let ?st0 = "init_backward self req syns"
  have l0: "length (synapse_codes ?st0) = length syns" by (simp add: init_backward_def)
  have l1: "length (synapse_codes st1) = length syns"
    unfolding assms(6) using decode_backward_loop_codes(1) [OF l0] .
  have c: "if backward_input_decodes self req (length syns) j (syns ! j)
        then synapse_codes st1 ! j = Success \<and> synapse_messages st1 ! j = ''Success''
        else synapse_codes st1 ! j \<noteq> Success" if "j < length syns" for j
    using decode_backward_loop_codes(2) [OF l0 that, of self req] that
    by (auto simp: assms(6) init_backward_def split: if_splits)
  have s: "Success \<in> set (synapse_codes st1)"
    using c [OF assms(4)] assms(4,5) l1 by (auto simp: in_set_conv_nth)
  have v: "validate_backward self req syns ?st0 = Continue ?st0"
    using assms(2,3) by (simp add: validate_backward_Continue)
  have d: "decode_backward self req syns ?st0 = Continue st1"
    using s by (simp add: decode_backward_def return_if_all_failed_Continue assms(6))
  let ?st3 = "log_event Submit (log_event Priority
      ((finalize_codes_stats_and_logs self syns st1)\<lparr>synapse_is_response := map (\<lambda>_. True) syns\<rparr>))"
  have t: "backward_calls_try self req syns st1 = Inr ?st3"
    using assms(7,8,9) by (auto simp: backward_calls_try_def Let_def log_event_def split: sum.splits)
  have f3: "synapse_codes ?st3 = synapse_codes st1" "synapse_messages ?st3 = synapse_messages st1"
    "trace ?st3 = trace st1 @ [Finalize, Priority, Submit]"
    by (simp_all add: log_event_def)
  have b: "backward_calls self req syns st1 = Continue ?st3"
    using t s f3(1) by (simp add: backward_calls_def return_if_all_failed_Continue)
  have p: "axon_backward self req = Inr (finish_backward self syns ?st3)"
    using assms(1) v d b
    by (simp add: axon_backward_def backward_pipeline_def backward_stages_def finish_def)
  have fin: "ret_code (finish_backward self syns ?st3) = Success"
    "ret_tensors (finish_backward self syns ?st3) = []"
    "synapse_codes (ret_state (finish_backward self syns ?st3)) = synapse_codes st1"
    "synapse_messages (ret_state (finish_backward self syns ?st3)) = synapse_messages st1"
    "trace (ret_state (finish_backward self syns ?st3)) = trace st1 @ [Finalize, Priority, Submit, Finalize]"
    using f3 by (simp_all add: finish_backward_def Let_def)
  have tr: "set (trace st1) \<subseteq> decode_events"
    using decode_backward_loop_trace [of self req syns ?st0] by (simp add: assms(6))
  show ?thesis
    using p fin c tr by auto
qed

theorem backward_priority_mode_success_witness:
  "deserialize_synapses demo_priority_axon (synapses (demo_request [''x'', ''y'', ''bad'', ''zz''] [1, 2])) = Inr [1, 2] \<and>
   2 \<le> length (tensors (demo_request [''x'', ''y'', ''bad'', ''zz''] [1, 2])) \<and>
   length (tensors (demo_request [''x'', ''y'', ''bad'', ''zz''] [1, 2])) = 2 * length [1, 2 :: nat] \<and>
   1 < length [1, 2 :: nat] \<and>
   backward_input_decodes demo_priority_axon (demo_request [''x'', ''y'', ''bad'', ''zz''] [1, 2]) (length [1, 2 :: nat]) 1 ([1, 2] ! 1) \<and>
   \<not> backward_input_decodes demo_priority_axon (demo_request [''x'', ''y'', ''bad'', ''zz''] [1, 2]) (length [1, 2 :: nat]) 0 ([1, 2] ! 0) \<and>
   priority demo_priority_axon = Some (\<lambda>hk inputs_x kind. Inr 1) \<and>
   (\<exists>r. axon_backward demo_priority_axon (demo_request [''x'', ''y'', ''bad'', ''zz''] [1, 2]) = Inr r \<and>
        ret_code r = Success \<and> ret_tensors r = [] \<and>
        synapse_codes (ret_state r) ! 1 = Success \<and> synapse_messages (ret_state r) ! 1 = ''Success'' \<and>
        synapse_codes (ret_state r) ! 0 \<noteq> Success)"
proof -
  define req where "req = demo_request [''x'', ''y'', ''bad'', ''zz''] [1, 2]"
  define st1 where "st1 = decode_backward_loop demo_priority_axon req [1, 2] (init_backward demo_priority_axon req [1, 2])"
  have h: "deserialize_synapses demo_priority_axon (synapses req) = Inr [1, 2]"
    by (simp add: demo_defs req_def)
  have v1: "2 \<le> length (tensors req)" and v2: "length (tensors req) = 2 * length [1, 2 :: nat]"
    by (simp_all add: demo_defs req_def)
  have i: "1 < length [1, 2 :: nat]" by simp
  have d1: "backward_input_decodes demo_priority_axon req (length [1, 2 :: nat]) 1 ([1, 2] ! 1)"
    by (simp add: demo_defs req_def backward_input_decodes_def py_index_def)
  have d0: "\<not> backward_input_decodes demo_priority_axon req (length [1, 2 :: nat]) 0 ([1, 2] ! 0)"
    by (simp add: demo_defs req_def backward_input_decodes_def py_index_def)
  have p: "priority demo_priority_axon = Some (\<lambda>hk inputs_x kind. Inr 1)"
    by (simp add: demo_defs)
  have pf: "(\<lambda>hk inputs_x kind. Inr 1) (hotkey req) (deserialized_forward_tensors st1) BACKWARD = Inr (1 :: real)"
    by simp
  have sub: "\<not> isl (priority_threadpool_submit demo_priority_axon
      (\<lambda>_. backward_callback demo_priority_axon (deserialized_forward_tensors st1)
              (deserialized_forward_gradients st1) [1, 2]) 1)"
    by (simp add: demo_defs)
  obtain r where r: "axon_backward demo_priority_axon req = Inr r" "ret_code r = Success" "ret_tensors r = []"
    and ok: "\<forall>j < length [1, 2 :: nat]. backward_input_decodes demo_priority_axon req (length [1, 2 :: nat]) j ([1, 2] ! j) \<longrightarrow>
              synapse_codes (ret_state r) ! j = Success \<and> synapse_messages (ret_state r) ! j = ''Success''"
    and bad: "\<forall>j < length [1, 2 :: nat]. \<not> backward_input_decodes demo_priority_axon req (length [1, 2 :: nat]) j ([1, 2] ! j) \<longrightarrow>
              synapse_codes (ret_state r) ! j \<noteq> Success"
    using backward_priority_mode_success [OF h v1 v2 i d1 st1_def p pf sub] by blast
  have r1: "synapse_codes (ret_state r) ! 1 = Success \<and> synapse_messages (ret_state r) ! 1 = ''Success''"
    using ok i d1 by blast
  have r0: "synapse_codes (ret_state r) ! 0 \<noteq> Success"
    using bad d0 by simp
  show ?thesis
    unfolding req_def [symmetric] using h v1 v2 i d1 d0 p r r1 r0 by blast
qed

text \<open>
  The claim C10 as stated fails when the priority function raises: the call passes the
  validation, the second synapse decodes, and the overall code is UnknownException,
  which is also the code of the synapse that had decoded.
\<close>

theorem backward_priority_raises_counterexample:
  "priority demo_raising_priority_axon \<noteq> None \<and>
   2 \<le> length (tensors (demo_request [''x'', ''y'', ''bad'', ''zz''] [1, 2])) \<and>
   length (tensors (demo_request [''x'', ''y'', ''bad'', ''zz''] [1, 2])) = 2 * length [1, 2 :: nat] \<and>
   backward_input_decodes demo_raising_priority_axon (demo_request [''x'', ''y'', ''bad'', ''zz''] [1, 2]) 2 1 2 \<and>
   map_sum id (\<lambda>r. (ret_code r, synapse_codes (ret_state r), synapse_messages (ret_state r)))
     (axon_backward demo_raising_priority_axon (demo_request [''x'', ''y'', ''bad'', ''zz''] [1, 2]))
     = Inr (UnknownException, [UnknownException, UnknownException], [''unknown hotkey'', ''unknown hotkey''])"
proof -
  have "priority demo_raising_priority_axon \<noteq> None"
    by (simp add: demo_defs)
  moreover have "2 \<le> length (tensors (demo_request [''x'', ''y'', ''bad'', ''zz''] [1, 2])) \<and>
      length (tensors (demo_request [''x'', ''y'', ''bad'', ''zz''] [1, 2])) = 2 * length [1, 2 :: nat]"
    by (simp add: demo_defs)
  moreover have "backward_input_decodes demo_raising_priority_axon (demo_request [''x'', ''y'', ''bad'', ''zz''] [1, 2]) 2 1 2"
    by code_simp
  moreover have "map_sum id (\<lambda>r. (ret_code r, synapse_codes (ret_state r), synapse_messages (ret_state r)))
     (axon_backward demo_raising_priority_axon (demo_request [''x'', ''y'', ''bad'', ''zz''] [1, 2]))
     = Inr (UnknownException, [UnknownException, UnknownException], [''unknown hotkey'', ''unknown hotkey''])"
    by code_simp
  ultimately show ?thesis by blast
qed

subsection \<open>The forward compute stage and its handlers\<close>


lemma forward_calls_timeout_escapes:
  assumes "forward_calls_try self req syns st = Inl (TimeoutError m, st')"
    and "priority self \<noteq> None" and "\<not> future_bound st'"
  shows "forward_calls self req syns st = Raise (UnboundLocalError ''future'')"
  using assms by (simp add: forward_calls_def forward_calls_failed_def)

lemma priority_timeout_unbound:
  assumes "priority self = Some priority_fn"
    and "priority_fn (hotkey req) (deserialized_forward_tensors st) FORWARD = Inl (TimeoutError m)"
    and "\<not> future_bound st"
  shows "forward_calls self req syns st = Raise (UnboundLocalError ''future'')"
proof -
  have "\<exists>st'. forward_calls_try self req syns st = Inl (TimeoutError m, st') \<and> \<not> future_bound st'"
    using assms
    by (simp add: forward_calls_try_def Let_def log_event_def finalize_codes_stats_and_logs_def clock_tick_def)
  then show ?thesis
    using forward_calls_timeout_escapes assms(1) by fastforce
qed

text \<open>
  C4 at an input where the code lets an exception out. The axon has a priority function
  that raises a timeout; the request is valid and both tensors decode. The handler of
  line 342 calls \<^verbatim>\<open>future.cancel()\<close> (line 344) although line 317 never assigned
  \<^verbatim>\<open>future\<close>: \<^verbatim>\<open>_forward\<close>, and with it \<^verbatim>\<open>Forward\<close>, raises UnboundLocalError instead of
  returning Timeout for every synapse.
\<close>

theorem forward_priority_timeout_escapes:
  "priority demo_timeout_priority_axon \<noteq> None \<and>
   deserialize_synapses demo_timeout_priority_axon (synapses (demo_request [''x'', ''y''] [1, 2])) = Inr [1, 2] \<and>
   forward_input_decodes demo_timeout_priority_axon (demo_request [''x'', ''y''] [1, 2]) 0 1 \<and>
   forward_input_decodes demo_timeout_priority_axon (demo_request [''x'', ''y''] [1, 2]) 1 2 \<and>
   axon_forward demo_timeout_priority_axon (demo_request [''x'', ''y''] [1, 2]) = Inl (UnboundLocalError ''future'') \<and>
   Forward demo_timeout_priority_axon (demo_request [''x'', ''y''] [1, 2]) = Inl (UnboundLocalError ''future'')"
proof -
  have "priority demo_timeout_priority_axon \<noteq> None"
    by (simp add: demo_defs)
  moreover have "deserialize_synapses demo_timeout_priority_axon (synapses (demo_request [''x'', ''y''] [1, 2])) = Inr [1, 2]"
    by (simp add: demo_defs)
  moreover have "forward_input_decodes demo_timeout_priority_axon (demo_request [''x'', ''y''] [1, 2]) 0 1"
    "forward_input_decodes demo_timeout_priority_axon (demo_request [''x'', ''y''] [1, 2]) 1 2"
    by code_simp+
  moreover have "axon_forward demo_timeout_priority_axon (demo_request [''x'', ''y''] [1, 2]) = Inl (UnboundLocalError ''future'')"
    by code_simp
  moreover have "Forward demo_timeout_priority_axon (demo_request [''x'', ''y''] [1, 2]) = Inl (UnboundLocalError ''future'')"
    by code_simp
  ultimately show ?thesis by blast
qed

lemma forward_future_timeout_example:
  "map_sum id (\<lambda>r. (ret_tensors r, ret_code r, synapse_codes (ret_state r), trace (ret_state r)))
     (axon_forward demo_slow_axon (demo_request [''x'', ''y''] [1, 2]))
   = Inr ([], Timeout, [Timeout, Timeout],
       [SynapseEmpty 0, SynapseEmpty 1, DeserializeForwardRequestTensor 0, DeserializeForwardRequestTensor 1,
        Finalize, Priority, Submit, FutureResult, FutureCancel, Finalize])"
  by code_simp

subsection \<open>The encode loop when no outcome is Success\<close>




subsection \<open>What the stages before the encode loop call\<close>











end
